theory Spec2Isabelle
  imports Complex_Main "HOL-Library.Word"
begin

section \<open>takeSinglePhoto.py: the single-frame capture pipeline\<close>

text \<open>
  The script \<^verbatim>\<open>src/takeSinglePhoto.py\<close> consists of \<^verbatim>\<open>parse_arguments\<close> and \<^verbatim>\<open>main\<close>.
  \<^verbatim>\<open>main\<close> is embedded as a function that threads an explicit world (the ordered trace of
  everything the script prints and of every call it makes to a collaborator, the files
  on disk, and the number of \<^verbatim>\<open>camera.read()\<close> calls made so far).

  The camera classes of \<^verbatim>\<open>irpythermal\<close>, \<^verbatim>\<open>datetime.now\<close> and the rendering of a
  \<^verbatim>\<open>pathlib.Path\<close> are not part of the script. What they answer is a parameter of the
  model (the record \<open>env\<close>); what the script asks of them is recorded in the trace.

  A float is a value of the type \<open>npfloat\<close>: a real number, the negative zero, NaN or
  an infinity. Arithmetic on finite values is the arithmetic of the reals (rounding,
  overflow and underflow are left out); the special values follow IEEE 754. Where numpy
  leaves the sign of a zero result to the order of a reduction, the sign is a parameter.
\<close>

subsection \<open>Floats\<close>

text \<open>\<open>Fin 0\<close> is the positive zero and \<open>NegZero\<close> the negative one.\<close>

datatype npfloat = Fin real | NegZero | NaN | PInf | NInf

subsection \<open>Command line\<close>

text \<open>The namespace returned by \<^verbatim>\<open>parse_arguments\<close>; an option without default is \<^verbatim>\<open>None\<close>
  when absent.\<close>

record args =
  rawcam :: bool
  device :: "string option"
  offset :: "npfloat option"
  stabilization :: int
  output_folder :: string
  high_range :: bool
  file_arg :: "string option"

subsection \<open>Collaborators and the world\<close>

type_synonym raw_frame = "nat list list"
type_synonym lookup_table = "npfloat list"
type_synonym temp_frame = "npfloat list list"

text \<open>A file is named by the output folder given on the command line and the file name
  joined to it (\<^verbatim>\<open>output_folder / name\<close>).\<close>

type_synonym path = "string \<times> string"

text \<open>The keyword dictionary \<^verbatim>\<open>camera_kwargs\<close>: a key is either absent or present with
  its value. \<^verbatim>\<open>video_dev\<close> holds the capture device opened on the given path.\<close>

record camera_kwargs =
  camera_raw :: "bool option"
  video_dev :: "string option"
  fixed_offset :: "npfloat option"

datatype event =
    Print string
  | Mkdir string
  | CameraEmulator string
  | VideoCapture string
  | Camera camera_kwargs
  | TemperatureRangeHigh
  | WaitForRangeApplication
  | Read
  | Sleep
  | Info
  | ConvertToFrame raw_frame
  | ImWrite path
  | NpSave path
  | OpenWrite path
  | Release

text \<open>What a written file holds: the encoded colour image of a matrix of 8-bit values,
  the serialised temperature matrix, or text.\<close>

datatype content =
    Png "8 word list list"
  | Npy temp_frame
  | Text string

datatype error = ValueError

record env =
  read_result :: "nat \<Rightarrow> bool \<times> raw_frame"
  width :: int
  height :: int
  info :: "(string \<times> string) list"
  lut :: lookup_table
  convert_to_frame :: "raw_frame \<Rightarrow> lookup_table \<Rightarrow> temp_frame"
  now :: string
  path_str :: "path \<Rightarrow> string"
  min_zero_negative :: "npfloat list \<Rightarrow> bool"
  max_zero_negative :: "npfloat list \<Rightarrow> bool"
  sum_zero_negative :: bool

record world =
  trace :: "event list"
  files :: "path \<rightharpoonup> content"
  nreads :: nat

definition emit :: "event \<Rightarrow> world \<Rightarrow> world" where
  "emit e w = w\<lparr>trace := trace w @ [e]\<rparr>"

definition print :: "string \<Rightarrow> world \<Rightarrow> world" where
  "print s w = emit (Print s) w"

definition write_file :: "path \<Rightarrow> content \<Rightarrow> world \<Rightarrow> world" where
  "write_file p c w = w\<lparr>files := (files w)(p \<mapsto> c)\<rparr>"

text \<open>\<^verbatim>\<open>camera.read()\<close>: the k-th call answers \<open>read_result env k\<close>.\<close>

definition camera_read :: "env \<Rightarrow> world \<Rightarrow> (bool \<times> raw_frame) \<times> world" where
  "camera_read env w = (read_result env (nreads w), emit Read (w\<lparr>nreads := Suc (nreads w)\<rparr>))"

subsection \<open>Strings and number formatting\<close>

definition endswith :: "string \<Rightarrow> string \<Rightarrow> bool" where
  "endswith s suf = (length suf \<le> length s \<and> drop (length s - length suf) s = suf)"

definition digit_char :: "nat \<Rightarrow> char" where
  "digit_char d = ''0123456789'' ! d"

fun str_nat :: "nat \<Rightarrow> string" where
  "str_nat n = (if n < 10 then [digit_char n] else str_nat (n div 10) @ [digit_char (n mod 10)])"

declare str_nat.simps [simp del]

definition str_int :: "int \<Rightarrow> string" where
  "str_int i = (if i < 0 then CHR ''-'' # str_nat (nat (- i)) else str_nat (nat i))"

text \<open>Rounding to the nearest integer, an exact tie going to the even neighbour: the rule
  by which Python rounds the exact value of a float when it formats it.\<close>

definition round_half_even :: "real \<Rightarrow> int" where
  "round_half_even y =
     (let f = \<lfloor>y\<rfloor>; d = y - of_int f
      in if d < 1 / 2 then f else if 1 / 2 < d then f + 1 else if even f then f else f + 1)"

text \<open>The format specification \<^verbatim>\<open>:.2f\<close>.\<close>

definition fmt2f :: "npfloat \<Rightarrow> string" where
  "fmt2f v =
     (case v of
        NaN \<Rightarrow> ''nan''
      | PInf \<Rightarrow> ''inf''
      | NInf \<Rightarrow> ''-inf''
      | NegZero \<Rightarrow> ''-0.00''
      | Fin x \<Rightarrow>
          (let q = nat (round_half_even (\<bar>x\<bar> * 100))
           in (if x < 0 then ''-'' else '''') @ str_nat (q div 100) @ ''.''
              @ [digit_char (q div 10 mod 10), digit_char (q mod 10)]))"

text \<open>The degree sign of the messages, code point 176.\<close>

definition degree_C :: string where
  "degree_C = [char_of (176 :: nat), CHR ''C'']"

subsection \<open>numpy reductions and arithmetic\<close>

definition is_zero :: "npfloat \<Rightarrow> bool" where
  "is_zero v = (v = Fin 0 \<or> v = NegZero)"

definition is_inf :: "npfloat \<Rightarrow> bool" where
  "is_inf v = (v = PInf \<or> v = NInf)"

definition is_finite :: "npfloat \<Rightarrow> bool" where
  "is_finite v = (case v of Fin x \<Rightarrow> True | NegZero \<Rightarrow> True | _ \<Rightarrow> False)"

text \<open>The number a finite float stands for, and the sign bit of a float.\<close>

definition real_of :: "npfloat \<Rightarrow> real" where
  "real_of v = (case v of Fin x \<Rightarrow> x | _ \<Rightarrow> 0)"

definition sign_bit :: "npfloat \<Rightarrow> bool" where
  "sign_bit v = (case v of Fin x \<Rightarrow> x < 0 | NegZero \<Rightarrow> True | NInf \<Rightarrow> True | _ \<Rightarrow> False)"

text \<open>The comparison \<^verbatim>\<open><\<close> of floats: false when an operand is NaN, and the two zeros
  are equal.\<close>

definition np_less :: "npfloat \<Rightarrow> npfloat \<Rightarrow> bool" where
  "np_less a b =
     (a \<noteq> NaN \<and> b \<noteq> NaN \<and> a \<noteq> PInf \<and> b \<noteq> NInf
      \<and> (a = NInf \<or> b = PInf \<or> real_of a < real_of b))"

definition minimum :: "npfloat \<Rightarrow> npfloat \<Rightarrow> npfloat" where
  "minimum a b = (if np_less b a then b else a)"

definition maximum :: "npfloat \<Rightarrow> npfloat \<Rightarrow> npfloat" where
  "maximum a b = (if np_less a b then b else a)"

text \<open>The reductions of \<^verbatim>\<open>np.min\<close> and \<^verbatim>\<open>np.max\<close> over the elements of an array: NaN when
  an element is NaN, otherwise a least (greatest) element, found by folding from the
  neutral element of the reduction. When that element is a zero and zeros of both signs
  occur, the sign of the answer depends on the order in which numpy reduces and is taken
  from the environment.\<close>

definition min_value :: "env \<Rightarrow> npfloat list \<Rightarrow> npfloat" where
  "min_value env xs =
     (if NaN \<in> set xs then NaN
      else if is_zero (fold (\<lambda>e acc. minimum acc e) xs PInf)
              \<and> Fin 0 \<in> set xs \<and> NegZero \<in> set xs
      then (if min_zero_negative env xs then NegZero else Fin 0)
      else fold (\<lambda>e acc. minimum acc e) xs PInf)"

definition max_value :: "env \<Rightarrow> npfloat list \<Rightarrow> npfloat" where
  "max_value env xs =
     (if NaN \<in> set xs then NaN
      else if is_zero (fold (\<lambda>e acc. maximum acc e) xs NInf)
              \<and> Fin 0 \<in> set xs \<and> NegZero \<in> set xs
      then (if max_zero_negative env xs then NegZero else Fin 0)
      else fold (\<lambda>e acc. maximum acc e) xs NInf)"

text \<open>\<^verbatim>\<open>np.min\<close> and \<^verbatim>\<open>np.max\<close> reduce over all elements and raise \<^verbatim>\<open>ValueError\<close> on an
  array of size zero; \<^verbatim>\<open>np.mean\<close> and \<^verbatim>\<open>np.std\<close> answer NaN there.\<close>

definition np_min :: "env \<Rightarrow> temp_frame \<Rightarrow> error + npfloat" where
  "np_min env m =
     (case concat m of [] \<Rightarrow> Inl ValueError | x # xs \<Rightarrow> Inr (min_value env (x # xs)))"

definition np_max :: "env \<Rightarrow> temp_frame \<Rightarrow> error + npfloat" where
  "np_max env m =
     (case concat m of [] \<Rightarrow> Inl ValueError | x # xs \<Rightarrow> Inr (max_value env (x # xs)))"

definition mean_list :: "real list \<Rightarrow> real" where
  "mean_list xs = sum_list xs / real (length xs)"

text \<open>\<^verbatim>\<open>np.mean\<close>: the sum of the elements over their number. A sum with a NaN, or with
  infinities of both signs, is NaN. The sum of negative zeros alone is a zero whose sign
  depends on the value the reduction starts from, and is taken from the environment.\<close>

definition np_mean :: "env \<Rightarrow> temp_frame \<Rightarrow> npfloat" where
  "np_mean env m =
     (if concat m = [] then NaN
      else if NaN \<in> set (concat m) \<or> (PInf \<in> set (concat m) \<and> NInf \<in> set (concat m)) then NaN
      else if PInf \<in> set (concat m) then PInf
      else if NInf \<in> set (concat m) then NInf
      else if list_all (\<lambda>v. v = NegZero) (concat m)
      then (if sum_zero_negative env then NegZero else Fin 0)
      else Fin (mean_list (map real_of (concat m))))"

text \<open>\<^verbatim>\<open>np.std\<close>: the square root of the mean of the squared distances from the mean. An
  element that is not finite makes a distance NaN.\<close>

definition np_std :: "temp_frame \<Rightarrow> npfloat" where
  "np_std m =
     (if concat m = [] then NaN
      else if \<not> list_all is_finite (concat m) then NaN
      else Fin (sqrt (mean_list
             (map (\<lambda>x. (\<bar>x - mean_list (map real_of (concat m))\<bar>)\<^sup>2)
                (map real_of (concat m))))))"

text \<open>Negation, addition and subtraction of floats. A sum of finite values that is zero
  is the positive zero, unless both operands are negative zeros.\<close>

definition np_negative :: "npfloat \<Rightarrow> npfloat" where
  "np_negative v =
     (case v of
        Fin x \<Rightarrow> if x = 0 then NegZero else Fin (- x)
      | NegZero \<Rightarrow> Fin 0
      | NaN \<Rightarrow> NaN
      | PInf \<Rightarrow> NInf
      | NInf \<Rightarrow> PInf)"

definition np_add :: "npfloat \<Rightarrow> npfloat \<Rightarrow> npfloat" where
  "np_add a b =
     (if a = NaN \<or> b = NaN then NaN
      else if (a = PInf \<and> b = NInf) \<or> (a = NInf \<and> b = PInf) then NaN
      else if a = PInf \<or> b = PInf then PInf
      else if a = NInf \<or> b = NInf then NInf
      else if a = NegZero \<and> b = NegZero then NegZero
      else Fin (real_of a + real_of b))"

definition np_subtract :: "npfloat \<Rightarrow> npfloat \<Rightarrow> npfloat" where
  "np_subtract a b = np_add a (np_negative b)"

text \<open>Float multiplication and division as numpy performs them. No exception is raised:
  \<open>0 / 0\<close>, \<open>inf / inf\<close> and \<open>0 * inf\<close> are NaN, and a non-zero value over zero is an
  infinity. The sign of any other result is the product of the signs.\<close>

definition with_sign :: "bool \<Rightarrow> npfloat \<Rightarrow> npfloat" where
  "with_sign negative v = (if negative then np_negative v else v)"

definition np_divide :: "npfloat \<Rightarrow> npfloat \<Rightarrow> npfloat" where
  "np_divide a b =
     (if a = NaN \<or> b = NaN then NaN
      else if is_zero a \<and> is_zero b then NaN
      else if is_inf a \<and> is_inf b then NaN
      else with_sign (sign_bit a \<noteq> sign_bit b)
             (if is_inf a then PInf
              else if is_inf b then Fin 0
              else if is_zero b then PInf
              else Fin (\<bar>real_of a\<bar> / \<bar>real_of b\<bar>)))"

definition np_multiply :: "npfloat \<Rightarrow> npfloat \<Rightarrow> npfloat" where
  "np_multiply a b =
     (if a = NaN \<or> b = NaN then NaN
      else if (is_zero a \<and> is_inf b) \<or> (is_inf a \<and> is_zero b) then NaN
      else with_sign (sign_bit a \<noteq> sign_bit b)
             (if is_inf a \<or> is_inf b then PInf
              else Fin (\<bar>real_of a\<bar> * \<bar>real_of b\<bar>)))"

text \<open>\<^verbatim>\<open>.astype(np.uint8)\<close>, as numpy performs it on x86-64: the float is truncated towards
  zero to a 32-bit integer, of which the low byte is kept; NaN, the infinities and the
  values outside the 32-bit range give the integer \<open>-2^31\<close>, whose low byte is 0.\<close>

definition astype_uint8 :: "npfloat \<Rightarrow> 8 word" where
  "astype_uint8 v =
     (case v of
        Fin x \<Rightarrow>
          (let t = (if 0 \<le> x then \<lfloor>x\<rfloor> else \<lceil>x\<rceil>)
           in if - (2 ^ 31) \<le> t \<and> t < 2 ^ 31 then word_of_int t else 0)
      | _ \<Rightarrow> 0)"

text \<open>\<^verbatim>\<open>(temp_frame - temp_min) / (temp_max - temp_min) * 255\<close>, element by element.\<close>

definition scale_frame :: "temp_frame \<Rightarrow> npfloat \<Rightarrow> npfloat \<Rightarrow> npfloat list list" where
  "scale_frame temp_frame temp_min temp_max =
     map (map (\<lambda>t. np_multiply
                      (np_divide (np_subtract t temp_min) (np_subtract temp_max temp_min))
                      (Fin 255)))
       temp_frame"

definition temp_normalized :: "temp_frame \<Rightarrow> npfloat \<Rightarrow> npfloat \<Rightarrow> 8 word list list" where
  "temp_normalized temp_frame temp_min temp_max =
     map (map astype_uint8) (scale_frame temp_frame temp_min temp_max)"

subsection \<open>Camera initialisation (lines 51-74)\<close>

definition use_emulator :: "args \<Rightarrow> bool" where
  "use_emulator a = (case file_arg a of None \<Rightarrow> False | Some f \<Rightarrow> f \<noteq> [] \<and> endswith f ''.npy'')"

definition truthy_str :: "string option \<Rightarrow> bool" where
  "truthy_str s = (case s of None \<Rightarrow> False | Some t \<Rightarrow> t \<noteq> [])"

text \<open>The truth value of \<^verbatim>\<open>args.offset\<close>: \<^verbatim>\<open>None\<close> and the two zeros are false, every other
  float (NaN included) is true.\<close>

definition truthy_float :: "npfloat option \<Rightarrow> bool" where
  "truthy_float x = (case x of None \<Rightarrow> False | Some r \<Rightarrow> \<not> is_zero r)"

definition make_camera_kwargs :: "args \<Rightarrow> camera_kwargs" where
  "make_camera_kwargs a =
     \<lparr> camera_raw = (if rawcam a then Some True else None),
       video_dev = (if truthy_str (device a) then device a else None),
       fixed_offset = (if truthy_float (offset a) then offset a else None) \<rparr>"

definition init_camera :: "args \<Rightarrow> world \<Rightarrow> world" where
  "init_camera a w =
     (if use_emulator a then
        print (''Using emulator with file: '' @ the (file_arg a))
          (emit (CameraEmulator (the (file_arg a))) w)
      else
        (let w1 = (if truthy_str (device a) then emit (VideoCapture (the (device a))) w else w);
             w2 = emit (Camera (make_camera_kwargs a)) w1
         in if high_range a then
              emit WaitForRangeApplication
                (emit TemperatureRangeHigh (print ''Setting high temperature range...'' w2))
            else print ''Using normal temperature range...'' w2))"

subsection \<open>Stabilisation (lines 78-84)\<close>

definition stabilize_step :: "env \<Rightarrow> args \<Rightarrow> nat \<Rightarrow> world \<Rightarrow> world" where
  "stabilize_step env a i w =
     (let w1 = snd (camera_read env w);
          w2 = (if (i + 1) mod 5 = 0
                then print (''  Skipped '' @ str_nat (i + 1) @ ''/'' @ str_int (stabilization a)
                            @ '' frames'') w1
                else w1)
      in emit Sleep w2)"

text \<open>\<^verbatim>\<open>for i in range(args.stabilization)\<close>: the range of a negative number is empty.\<close>

definition stabilize :: "env \<Rightarrow> args \<Rightarrow> world \<Rightarrow> world" where
  "stabilize env a w = fold (stabilize_step env a) [0 ..< nat (stabilization a)] w"

subsection \<open>Output (lines 112-157)\<close>

definition image_filename :: "env \<Rightarrow> args \<Rightarrow> path" where
  "image_filename env a = (output_folder a, ''thermal_'' @ now env @ ''.png'')"

definition numpy_filename :: "env \<Rightarrow> args \<Rightarrow> path" where
  "numpy_filename env a = (output_folder a, ''thermal_'' @ now env @ ''.npy'')"

definition metadata_filename :: "env \<Rightarrow> args \<Rightarrow> path" where
  "metadata_filename env a = (output_folder a, ''thermal_'' @ now env @ ''.txt'')"

definition simple_filename :: "env \<Rightarrow> args \<Rightarrow> path" where
  "simple_filename env a = (output_folder a, ''thermal_'' @ now env @ ''_minmax.txt'')"

definition metadata_text :: "env \<Rightarrow> npfloat \<Rightarrow> npfloat \<Rightarrow> npfloat \<Rightarrow> npfloat \<Rightarrow> string" where
  "metadata_text env temp_min temp_max temp_mean temp_std =
     ''Thermal Camera Capture\<newline>''
     @ ''Timestamp: '' @ now env @ ''\<newline>''
     @ ''Camera resolution: '' @ str_int (width env) @ '' x '' @ str_int (height env) @ ''\<newline>''
     @ ''\<newline>Temperature statistics:\<newline>''
     @ ''  Minimum: '' @ fmt2f temp_min @ degree_C @ ''\<newline>''
     @ ''  Maximum: '' @ fmt2f temp_max @ degree_C @ ''\<newline>''
     @ ''  Mean: '' @ fmt2f temp_mean @ degree_C @ ''\<newline>''
     @ ''  Standard deviation: '' @ fmt2f temp_std @ degree_C @ ''\<newline>''
     @ (if info env \<noteq> []
        then ''\<newline>Camera info:\<newline>''
             @ concat (map (\<lambda>(key, value). ''  '' @ key @ '': '' @ value @ ''\<newline>'') (info env))
        else '''')"

definition simple_text :: "npfloat \<Rightarrow> npfloat \<Rightarrow> string" where
  "simple_text temp_min temp_max =
     fmt2f temp_min @ ''\<newline>'' @ fmt2f temp_max @ ''\<newline>''"

definition save_outputs ::
  "env \<Rightarrow> args \<Rightarrow> temp_frame \<Rightarrow> npfloat \<Rightarrow> npfloat \<Rightarrow> npfloat \<Rightarrow> npfloat \<Rightarrow> world \<Rightarrow> world" where
  "save_outputs env a temp_frame temp_min temp_max temp_mean temp_std w =
     (let w1 = emit (ImWrite (image_filename env a))
                 (write_file (image_filename env a)
                    (Png (temp_normalized temp_frame temp_min temp_max)) w);
          w2 = print (''\<newline>Image saved to: '' @ path_str env (image_filename env a)) w1;
          w3 = emit (NpSave (numpy_filename env a))
                 (write_file (numpy_filename env a) (Npy temp_frame) w2);
          w4 = print (''Raw temperature data saved to: '' @ path_str env (numpy_filename env a)) w3;
          w5 = emit (OpenWrite (metadata_filename env a))
                 (write_file (metadata_filename env a)
                    (Text (metadata_text env temp_min temp_max temp_mean temp_std)) w4);
          w6 = print (''Metadata saved to: '' @ path_str env (metadata_filename env a)) w5;
          w7 = emit (OpenWrite (simple_filename env a))
                 (write_file (simple_filename env a) (Text (simple_text temp_min temp_max)) w6)
      in print (''Min/max file saved to: '' @ path_str env (simple_filename env a)) w7)"

subsection \<open>Conversion, statistics and the whole of \<^verbatim>\<open>main\<close>\<close>

definition print_statistics :: "npfloat \<Rightarrow> npfloat \<Rightarrow> npfloat \<Rightarrow> npfloat \<Rightarrow> world \<Rightarrow> world" where
  "print_statistics temp_min temp_max temp_mean temp_std w =
     print (''  Std: '' @ fmt2f temp_std @ degree_C)
       (print (''  Mean: '' @ fmt2f temp_mean @ degree_C)
         (print (''  Max: '' @ fmt2f temp_max @ degree_C)
           (print (''  Min: '' @ fmt2f temp_min @ degree_C)
             (print ''\<newline>Temperature statistics:'' w))))"

text \<open>Lines 101-104: the four statistics, in the order the script computes them. The
  first reduction to raise ends the computation.\<close>

definition statistics ::
  "env \<Rightarrow> temp_frame \<Rightarrow> error + (npfloat \<times> npfloat \<times> npfloat \<times> npfloat)" where
  "statistics env temp_frame =
     (case np_min env temp_frame of
        Inl e \<Rightarrow> Inl e
      | Inr temp_min \<Rightarrow>
         (case np_max env temp_frame of
            Inl e \<Rightarrow> Inl e
          | Inr temp_max \<Rightarrow>
              Inr (temp_min, temp_max, np_mean env temp_frame, np_std temp_frame)))"

text \<open>Lines 94-161, after a successful final read. An exception raised by a statistic
  leaves \<^verbatim>\<open>main\<close> at once: the result is the error and the world as it was then.\<close>

definition process_frame :: "env \<Rightarrow> args \<Rightarrow> raw_frame \<Rightarrow> world \<Rightarrow> error option \<times> world" where
  "process_frame env a raw w =
     (let w1 = emit Info w;
          w2 = emit (ConvertToFrame raw) w1;
          temp_frame = convert_to_frame env raw (lut env)
      in case statistics env temp_frame of
           Inl e \<Rightarrow> (Some e, w2)
         | Inr (temp_min, temp_max, temp_mean, temp_std) \<Rightarrow>
            (let w3 = print_statistics temp_min temp_max temp_mean temp_std w2;
                 w4 = save_outputs env a temp_frame temp_min temp_max temp_mean temp_std w3
             in (None, print ''\<newline>Done!'' (emit Release w4))))"

text \<open>\<^verbatim>\<open>main\<close>: the result is \<open>None\<close> when it returns and \<open>Some e\<close> when the exception \<open>e\<close>
  leaves it.\<close>

definition main :: "env \<Rightarrow> args \<Rightarrow> world \<Rightarrow> error option \<times> world" where
  "main env a w0 =
     (let w1 = emit (Mkdir (output_folder a)) w0;
          w2 = print ''Initializing camera...'' w1;
          w3 = init_camera a w2;
          w4 = print (''Camera resolution: '' @ str_int (width env) @ '' x ''
                      @ str_int (height env)) w3;
          w5 = print (''Stabilizing (skipping '' @ str_int (stabilization a) @ '' frames)...'') w4;
          w6 = stabilize env a w5;
          w7 = print ''Capturing final frame...'' w6;
          r = camera_read env w7
      in if \<not> fst (fst r)
         then (None, emit Release (print ''Error: could not read frame from camera'' (snd r)))
         else process_frame env a (snd (fst r)) (snd r))"

text \<open>The world when \<^verbatim>\<open>main\<close> starts: nothing printed or called yet, no frame read, and the
  files that are already on disk.\<close>

definition start :: "(path \<rightharpoonup> content) \<Rightarrow> world" where
  "start fs = \<lparr>trace = [], files = fs, nreads = 0\<rparr>"

definition run :: "env \<Rightarrow> args \<Rightarrow> (path \<rightharpoonup> content) \<Rightarrow> error option \<times> world" where
  "run env a fs = main env a (start fs)"

subsection \<open>The events of each phase\<close>

text \<open>The lists below name, phase by phase, what the functions above append to the trace;
  the lemmas of the next section prove that they do.\<close>

definition init_events :: "args \<Rightarrow> event list" where
  "init_events a =
     (if use_emulator a then
        [CameraEmulator (the (file_arg a)), Print (''Using emulator with file: '' @ the (file_arg a))]
      else
        (if truthy_str (device a) then [VideoCapture (the (device a))] else [])
        @ [Camera (make_camera_kwargs a)]
        @ (if high_range a
           then [Print ''Setting high temperature range...'', TemperatureRangeHigh,
                 WaitForRangeApplication]
           else [Print ''Using normal temperature range...'']))"

definition step_events :: "args \<Rightarrow> nat \<Rightarrow> event list" where
  "step_events a i =
     Read # (if (i + 1) mod 5 = 0
             then [Print (''  Skipped '' @ str_nat (i + 1) @ ''/'' @ str_int (stabilization a)
                          @ '' frames'')]
             else []) @ [Sleep]"

definition stabilize_events :: "args \<Rightarrow> nat \<Rightarrow> event list" where
  "stabilize_events a n = concat (map (step_events a) [0 ..< n])"

text \<open>The answer to the final capture read of a run that starts in world \<open>w\<close>, and the
  temperature matrix converted from its frame.\<close>

definition final_read :: "env \<Rightarrow> args \<Rightarrow> world \<Rightarrow> bool \<times> raw_frame" where
  "final_read env a w = read_result env (nreads w + nat (stabilization a))"

definition captured_frame :: "env \<Rightarrow> args \<Rightarrow> world \<Rightarrow> temp_frame" where
  "captured_frame env a w = convert_to_frame env (snd (final_read env a w)) (lut env)"

definition capture_events :: "env \<Rightarrow> args \<Rightarrow> event list" where
  "capture_events env a =
     [Mkdir (output_folder a), Print ''Initializing camera...'']
     @ init_events a
     @ [Print (''Camera resolution: '' @ str_int (width env) @ '' x '' @ str_int (height env)),
        Print (''Stabilizing (skipping '' @ str_int (stabilization a) @ '' frames)...'')]
     @ stabilize_events a (nat (stabilization a))
     @ [Print ''Capturing final frame...'', Read]"

definition stats_events :: "npfloat \<Rightarrow> npfloat \<Rightarrow> npfloat \<Rightarrow> npfloat \<Rightarrow> event list" where
  "stats_events temp_min temp_max temp_mean temp_std =
     [Print ''\<newline>Temperature statistics:'',
      Print (''  Min: '' @ fmt2f temp_min @ degree_C),
      Print (''  Max: '' @ fmt2f temp_max @ degree_C),
      Print (''  Mean: '' @ fmt2f temp_mean @ degree_C),
      Print (''  Std: '' @ fmt2f temp_std @ degree_C)]"

definition save_events :: "env \<Rightarrow> args \<Rightarrow> event list" where
  "save_events env a =
     [ImWrite (image_filename env a),
      Print (''\<newline>Image saved to: '' @ path_str env (image_filename env a)),
      NpSave (numpy_filename env a),
      Print (''Raw temperature data saved to: '' @ path_str env (numpy_filename env a)),
      OpenWrite (metadata_filename env a),
      Print (''Metadata saved to: '' @ path_str env (metadata_filename env a)),
      OpenWrite (simple_filename env a),
      Print (''Min/max file saved to: '' @ path_str env (simple_filename env a))]"

definition tail_events :: "env \<Rightarrow> args \<Rightarrow> world \<Rightarrow> event list" where
  "tail_events env a w =
     (if \<not> fst (final_read env a w)
      then [Print ''Error: could not read frame from camera'', Release]
      else [Info, ConvertToFrame (snd (final_read env a w))]
           @ (case statistics env (captured_frame env a w) of
                Inl e \<Rightarrow> []
              | Inr (temp_min, temp_max, temp_mean, temp_std) \<Rightarrow>
                  stats_events temp_min temp_max temp_mean temp_std @ save_events env a
                  @ [Release, Print ''\<newline>Done!'']))"

text \<open>The calls that construct and configure the camera.\<close>

fun setup_event :: "event \<Rightarrow> bool" where
  "setup_event (CameraEmulator f) = True"
| "setup_event (VideoCapture p) = True"
| "setup_event (Camera kw) = True"
| "setup_event TemperatureRangeHigh = True"
| "setup_event WaitForRangeApplication = True"
| "setup_event e = False"

text \<open>The calls that write an artifact.\<close>

fun write_event :: "event \<Rightarrow> bool" where
  "write_event (ImWrite p) = True"
| "write_event (NpSave p) = True"
| "write_event (OpenWrite p) = True"
| "write_event e = False"

text \<open>What the format \<^verbatim>\<open>:.2f\<close> has to print. A decimal with two places is an optional
  minus sign, an integer part without superfluous zeros, a point and two digits; it
  denotes a sign and a number of hundredths. It prints a finite float when the sign is
  the float's sign bit and the hundredths are the nearest to the float's magnitude, an
  exact tie going to the even neighbour. NaN and the infinities print as words.\<close>

definition is_digit :: "char \<Rightarrow> bool" where
  "is_digit c = (c \<in> set ''0123456789'')"

definition digit_val :: "char \<Rightarrow> nat" where
  "digit_val c = of_char c - 48"

definition digits_val :: "string \<Rightarrow> nat" where
  "digits_val s = foldl (\<lambda>n c. 10 * n + digit_val c) 0 s"

fun strip_sign :: "string \<Rightarrow> string" where
  "strip_sign [] = []"
| "strip_sign (c # cs) = (if c = CHR ''-'' then cs else c # cs)"

definition canonical_nat :: "string \<Rightarrow> bool" where
  "canonical_nat ds = (ds \<noteq> [] \<and> list_all is_digit ds \<and> (ds = ''0'' \<or> hd ds \<noteq> CHR ''0''))"

definition decimal2 :: "string \<Rightarrow> bool" where
  "decimal2 s =
     (case rev (strip_sign s) of
        d2 # d1 # p # ip \<Rightarrow>
          p = CHR ''.'' \<and> is_digit d1 \<and> is_digit d2 \<and> canonical_nat (rev ip)
      | _ \<Rightarrow> False)"

definition printed_negative :: "string \<Rightarrow> bool" where
  "printed_negative s = (take 1 s = ''-'')"

definition printed_hundredths :: "string \<Rightarrow> nat" where
  "printed_hundredths s = digits_val (filter is_digit s)"

definition nearest_even :: "real \<Rightarrow> nat \<Rightarrow> bool" where
  "nearest_even y q = (\<bar>real q - y\<bar> \<le> 1 / 2 \<and> (\<bar>real q - y\<bar> = 1 / 2 \<longrightarrow> even q))"

definition prints_as :: "npfloat \<Rightarrow> string \<Rightarrow> bool" where
  "prints_as v s =
     (case v of
        NaN \<Rightarrow> s = ''nan''
      | PInf \<Rightarrow> s = ''inf''
      | NInf \<Rightarrow> s = ''-inf''
      | _ \<Rightarrow> decimal2 s \<and> printed_negative s = sign_bit v
             \<and> nearest_even (\<bar>real_of v\<bar> * 100) (printed_hundredths s))"

text \<open>The least and the greatest element of a list of floats, as numbers: NaN when an
  element is NaN, otherwise an element that no element is less (greater) than.\<close>

definition least_of :: "npfloat list \<Rightarrow> npfloat \<Rightarrow> bool" where
  "least_of xs v =
     (v \<in> set xs \<and> (if NaN \<in> set xs then v = NaN else \<forall>t \<in> set xs. \<not> np_less t v))"

definition greatest_of :: "npfloat list \<Rightarrow> npfloat \<Rightarrow> bool" where
  "greatest_of xs v =
     (v \<in> set xs \<and> (if NaN \<in> set xs then v = NaN else \<forall>t \<in> set xs. \<not> np_less v t))"

subsection \<open>Concrete runs\<close>

text \<open>A replay whose every frame is a 4 by 4 grid of the raw value 100, which the
  calibration maps to 23.5 degrees.\<close>

definition uniform_frame :: temp_frame where
  "uniform_frame =
     [[Fin 23.5, Fin 23.5, Fin 23.5, Fin 23.5], [Fin 23.5, Fin 23.5, Fin 23.5, Fin 23.5],
      [Fin 23.5, Fin 23.5, Fin 23.5, Fin 23.5], [Fin 23.5, Fin 23.5, Fin 23.5, Fin 23.5]]"

definition uniform_env :: env where
  "uniform_env =
     \<lparr> read_result = (\<lambda>k. (True, [[100, 100, 100, 100], [100, 100, 100, 100],
                                  [100, 100, 100, 100], [100, 100, 100, 100]])),
       width = 4, height = 4, info = [], lut = [],
       convert_to_frame =
         (\<lambda>raw table. map (map (\<lambda>c. if c = 100 then Fin 23.5 else Fin 0)) raw),
       now = ''2024-05-01_12-00-00'',
       path_str = (\<lambda>p. fst p @ ''/'' @ snd p),
       min_zero_negative = (\<lambda>xs. False), max_zero_negative = (\<lambda>xs. False),
       sum_zero_negative = False \<rparr>"

text \<open>A camera whose calibration answers NaN for every pixel of a 1 by 2 frame.\<close>

definition nan_env :: env where
  "nan_env =
     uniform_env\<lparr>read_result := (\<lambda>k. (True, [[7, 7]])),
                 convert_to_frame := (\<lambda>raw table. map (map (\<lambda>c. NaN)) raw)\<rparr>"

text \<open>The same camera with degenerate dimensions (every frame is empty), and one whose
  every read fails.\<close>

definition degenerate_env :: env where
  "degenerate_env = uniform_env\<lparr>read_result := (\<lambda>k. (True, []))\<rparr>"

definition failing_env :: env where
  "failing_env = uniform_env\<lparr>read_result := (\<lambda>k. (False, []))\<rparr>"

definition replay_args :: args where
  "replay_args =
     \<lparr> rawcam = False, device = None, offset = None, stabilization = 2,
       output_folder = ''out'', high_range = False, file_arg = Some ''frames.npy'' \<rparr>"

definition live_args :: args where
  "live_args =
     \<lparr> rawcam = False, device = None, offset = None, stabilization = 2,
       output_folder = ''out'', high_range = True, file_arg = None \<rparr>"

section \<open>Properties\<close>

subsection \<open>What each phase does to the world\<close>

lemma emit_simps [simp]:
  "trace (emit e w) = trace w @ [e]" "files (emit e w) = files w" "nreads (emit e w) = nreads w"
  by (simp_all add: emit_def)

lemma print_simps [simp]:
  "trace (print s w) = trace w @ [Print s]" "files (print s w) = files w"
  "nreads (print s w) = nreads w"
  by (simp_all add: print_def)

lemma write_file_simps [simp]:
  "trace (write_file p c w) = trace w" "files (write_file p c w) = (files w)(p \<mapsto> c)"
  "nreads (write_file p c w) = nreads w"
  by (simp_all add: write_file_def)

lemma camera_read_simps [simp]:
  "fst (camera_read env w) = read_result env (nreads w)"
  "trace (snd (camera_read env w)) = trace w @ [Read]"
  "files (snd (camera_read env w)) = files w"
  "nreads (snd (camera_read env w)) = Suc (nreads w)"
  by (simp_all add: camera_read_def)

lemma init_camera_simps [simp]:
  "trace (init_camera a w) = trace w @ init_events a"
  "files (init_camera a w) = files w"
  "nreads (init_camera a w) = nreads w"
  by (simp_all add: init_camera_def init_events_def Let_def)

lemma stabilize_step_simps [simp]:
  "trace (stabilize_step env a i w) = trace w @ step_events a i"
  "files (stabilize_step env a i w) = files w"
  "nreads (stabilize_step env a i w) = Suc (nreads w)"
  by (simp_all add: stabilize_step_def step_events_def Let_def)

lemma fold_stabilize_step:
  "trace (fold (stabilize_step env a) [0 ..< n] w) = trace w @ stabilize_events a n \<and>
   files (fold (stabilize_step env a) [0 ..< n] w) = files w \<and>
   nreads (fold (stabilize_step env a) [0 ..< n] w) = nreads w + n"
  by (induction n) (simp_all add: stabilize_events_def)

lemma stabilize_simps [simp]:
  "trace (stabilize env a w) = trace w @ stabilize_events a (nat (stabilization a))"
  "files (stabilize env a w) = files w"
  "nreads (stabilize env a w) = nreads w + nat (stabilization a)"
  by (simp_all add: stabilize_def fold_stabilize_step)

lemma count_step_events [simp]:
  "count_list (step_events a i) Read = 1" "count_list (step_events a i) Sleep = 1"
  "count_list (step_events a i) Release = 0"
  by (simp_all add: step_events_def)

lemma count_stabilize_events [simp]:
  "count_list (stabilize_events a n) Read = n" "count_list (stabilize_events a n) Sleep = n"
  "count_list (stabilize_events a n) Release = 0"
  by (induction n) (simp_all add: stabilize_events_def)

lemma print_statistics_simps [simp]:
  "trace (print_statistics mn mx me sd w) = trace w @ stats_events mn mx me sd"
  "files (print_statistics mn mx me sd w) = files w"
  "nreads (print_statistics mn mx me sd w) = nreads w"
  by (simp_all add: print_statistics_def stats_events_def)

lemma save_outputs_simps [simp]:
  "trace (save_outputs env a m mn mx me sd w) = trace w @ save_events env a"
  "files (save_outputs env a m mn mx me sd w) =
     (files w)(image_filename env a \<mapsto> Png (temp_normalized m mn mx),
               numpy_filename env a \<mapsto> Npy m,
               metadata_filename env a \<mapsto> Text (metadata_text env mn mx me sd),
               simple_filename env a \<mapsto> Text (simple_text mn mx))"
  "nreads (save_outputs env a m mn mx me sd w) = nreads w"
  by (simp_all add: save_outputs_def save_events_def Let_def)

lemma main_failed_read:
  assumes "\<not> fst (final_read env a w)"
  shows "fst (main env a w) = None"
    and "trace (snd (main env a w)) =
           trace w @ capture_events env a
           @ [Print ''Error: could not read frame from camera'', Release]"
    and "files (snd (main env a w)) = files w"
  using assms by (simp_all add: main_def Let_def final_read_def capture_events_def)

lemma main_raises:
  assumes "fst (final_read env a w)" and "statistics env (captured_frame env a w) = Inl e"
  shows "fst (main env a w) = Some e"
    and "trace (snd (main env a w)) =
           trace w @ capture_events env a @ [Info, ConvertToFrame (snd (final_read env a w))]"
    and "files (snd (main env a w)) = files w"
  using assms
  by (simp_all add: main_def Let_def final_read_def captured_frame_def capture_events_def
      process_frame_def)

lemma main_success:
  assumes "fst (final_read env a w)"
    and "statistics env (captured_frame env a w) = Inr (mn, mx, me, sd)"
  shows "fst (main env a w) = None"
    and "trace (snd (main env a w)) =
           trace w @ capture_events env a @ [Info, ConvertToFrame (snd (final_read env a w))]
           @ stats_events mn mx me sd @ save_events env a @ [Release, Print ''\<newline>Done!'']"
    and "files (snd (main env a w)) =
           (files w)(image_filename env a \<mapsto> Png (temp_normalized (captured_frame env a w) mn mx),
                     numpy_filename env a \<mapsto> Npy (captured_frame env a w),
                     metadata_filename env a \<mapsto> Text (metadata_text env mn mx me sd),
                     simple_filename env a \<mapsto> Text (simple_text mn mx))"
  using assms
  by (simp_all add: main_def Let_def final_read_def captured_frame_def capture_events_def
      process_frame_def)

lemma np_min_empty: "concat m = [] \<Longrightarrow> np_min env m = Inl ValueError"
  unfolding np_min_def by (simp only: list.case)

lemma np_min_nonempty:
  assumes "concat m \<noteq> []"
  shows "np_min env m = Inr (min_value env (concat m))"
proof -
  obtain x xs where c: "concat m = x # xs"
    using assms by (cases "concat m") auto
  show ?thesis
    unfolding np_min_def c by (simp only: list.case)
qed

lemma np_max_nonempty:
  assumes "concat m \<noteq> []"
  shows "np_max env m = Inr (max_value env (concat m))"
proof -
  obtain x xs where c: "concat m = x # xs"
    using assms by (cases "concat m") auto
  show ?thesis
    unfolding np_max_def c by (simp only: list.case)
qed

lemma statistics_empty: "concat m = [] \<Longrightarrow> statistics env m = Inl ValueError"
  unfolding statistics_def by (simp only: np_min_empty sum.case)

lemma statistics_nonempty:
  assumes "concat m \<noteq> []"
  shows "statistics env m =
           Inr (min_value env (concat m), max_value env (concat m), np_mean env m, np_std m)"
proof -
  have "np_min env m = Inr (min_value env (concat m))"
    using assms by (rule np_min_nonempty)
  moreover have "np_max env m = Inr (max_value env (concat m))"
    using assms by (rule np_max_nonempty)
  ultimately show ?thesis
    unfolding statistics_def by (simp only: sum.case)
qed

lemma statistics_Inl:
  assumes "statistics env m = Inl e"
  shows "concat m = []"
proof (rule ccontr)
  assume "concat m \<noteq> []"
  from statistics_nonempty [OF this] assms show False
    by (simp only: sum.distinct)
qed

lemma count_init_events [simp]: "count_list (init_events a) Release = 0"
  "count_list (init_events a) Read = 0"
  by (simp_all add: init_events_def)

lemma count_capture_events [simp]:
  "count_list (capture_events env a) Release = 0"
  "count_list (capture_events env a) Read = Suc (nat (stabilization a))"
  by (simp_all add: capture_events_def)

lemma trace_main:
  "trace (snd (main env a w)) = trace w @ capture_events env a @ tail_events env a w"
  by (simp add: main_def Let_def final_read_def captured_frame_def capture_events_def
      process_frame_def tail_events_def split: sum.splits prod.splits)

lemma fst_main:
  "fst (main env a w) =
     (if fst (final_read env a w) \<and> concat (captured_frame env a w) = []
      then Some ValueError else None)"
proof (cases "fst (final_read env a w)")
  case False
  then show ?thesis by (simp add: main_failed_read)
next
  case True
  show ?thesis
  proof (cases "concat (captured_frame env a w) = []")
    case e: True
    from main_raises(1) [OF True statistics_empty [OF e]] True e show ?thesis
      by (simp only: if_True simp_thms)
  next
    case ne: False
    from main_success(1) [OF True statistics_nonempty [OF ne]] True ne show ?thesis
      by (simp only: if_False simp_thms)
  qed
qed

lemma setup_event_step [simp]: "setup_event e \<Longrightarrow> e \<notin> set (step_events a i)"
  by (cases e) (auto simp: step_events_def)

lemma setup_event_stabilize [simp]: "setup_event e \<Longrightarrow> e \<notin> set (stabilize_events a n)"
  by (induction n) (simp_all add: stabilize_events_def)

lemma setup_event_tail [simp]: "setup_event e \<Longrightarrow> e \<notin> set (tail_events env a w)"
  by (cases e)
    (auto simp: tail_events_def stats_events_def save_events_def split: sum.splits prod.splits)

lemma setup_event_main:
  "setup_event e \<Longrightarrow>
   e \<in> set (trace (snd (main env a w))) \<longleftrightarrow> e \<in> set (trace w) \<or> e \<in> set (init_events a)"
  by (cases e) (auto simp: trace_main capture_events_def)


lemma final_read_start [simp]:
  "final_read env a (start fs) = read_result env (nat (stabilization a))"
  by (simp add: final_read_def start_def)

lemma start_simps [simp]: "trace (start fs) = []" "files (start fs) = fs" "nreads (start fs) = 0"
  by (simp_all add: start_def)


lemma write_event_init [simp]: "write_event e \<Longrightarrow> e \<notin> set (init_events a)"
  by (cases e) (auto simp: init_events_def)

lemma write_event_step [simp]: "write_event e \<Longrightarrow> e \<notin> set (step_events a i)"
  by (cases e) (auto simp: step_events_def)

lemma write_event_stabilize [simp]: "write_event e \<Longrightarrow> e \<notin> set (stabilize_events a n)"
  by (induction n) (simp_all add: stabilize_events_def)

lemma write_event_capture [simp]: "write_event e \<Longrightarrow> e \<notin> set (capture_events env a)"
  by (cases e) (auto simp: capture_events_def)

lemma count_tail_events_Release:
  "count_list (tail_events env a w) Release =
     (if fst (final_read env a w) \<and> concat (captured_frame env a w) = [] then 0 else 1)"
proof (cases "fst (final_read env a w)")
  case False
  then show ?thesis by (simp add: tail_events_def)
next
  case True
  show ?thesis
  proof (cases "concat (captured_frame env a w) = []")
    case e: True
    from statistics_empty [OF e] True e show ?thesis
      by (simp add: tail_events_def del: concat_eq_Nil_conv)
  next
    case ne: False
    from statistics_nonempty [OF ne] True ne show ?thesis
      by (simp add: tail_events_def stats_events_def save_events_def del: concat_eq_Nil_conv)
  qed
qed

lemma no_release_on_error:
  assumes "fst (main env a w) = Some e"
  shows "count_list (trace (snd (main env a w))) Release = count_list (trace w) Release"
  using assms
  by (simp add: trace_main fst_main count_tail_events_Release del: concat_eq_Nil_conv
      split: if_splits)

subsection \<open>The uniform frame\<close>

lemma min_value_uniform_frame: "min_value env (concat uniform_frame) = Fin 23.5"
  by (simp add: min_value_def uniform_frame_def minimum_def np_less_def real_of_def is_zero_def)

lemma max_value_uniform_frame: "max_value env (concat uniform_frame) = Fin 23.5"
  by (simp add: max_value_def uniform_frame_def maximum_def np_less_def real_of_def is_zero_def)

lemma np_mean_uniform_frame: "np_mean env uniform_frame = Fin 23.5"
  by (simp add: np_mean_def uniform_frame_def mean_list_def real_of_def)

lemma np_std_uniform_frame: "np_std uniform_frame = Fin 0"
  by (simp add: np_std_def uniform_frame_def mean_list_def real_of_def is_finite_def)

lemma statistics_uniform_frame:
  "statistics env uniform_frame = Inr (Fin 23.5, Fin 23.5, Fin 23.5, Fin 0)"
proof -
  have "concat uniform_frame \<noteq> []"
    by (simp add: uniform_frame_def)
  from statistics_nonempty [OF this] show ?thesis
    unfolding min_value_uniform_frame max_value_uniform_frame np_mean_uniform_frame
      np_std_uniform_frame .
qed

lemma divide_self: "np_divide (np_subtract (Fin x) (Fin x)) (np_subtract (Fin x) (Fin x)) = NaN"
  by (simp add: np_divide_def np_subtract_def np_add_def np_negative_def real_of_def is_zero_def)

lemma scale_self:
  "np_multiply (np_divide (np_subtract (Fin x) (Fin x)) (np_subtract (Fin x) (Fin x))) (Fin 255)
     = NaN"
  unfolding divide_self by (simp add: np_multiply_def)

lemma scale_uniform_frame:
  "scale_frame uniform_frame (Fin 23.5) (Fin 23.5) = replicate 4 (replicate 4 NaN)"
  by (simp add: scale_frame_def scale_self uniform_frame_def numeral_eq_Suc)

lemma normalized_uniform_frame:
  "temp_normalized uniform_frame (Fin 23.5) (Fin 23.5) = replicate 4 (replicate 4 0)"
  unfolding temp_normalized_def scale_uniform_frame by (simp add: astype_uint8_def)

text \<open>Whatever the common value of a uniform frame, every element is scaled to NaN.\<close>

lemma subtract_self: "np_subtract c c = NaN \<or> is_zero (np_subtract c c)"
  by (cases c)
    (simp_all add: np_subtract_def np_add_def np_negative_def real_of_def is_zero_def)

lemma scale_frame_uniform:
  assumes "\<forall>t \<in> set (concat m). t = c"
  shows "\<forall>v \<in> set (concat (scale_frame m c c)). v = NaN"
proof -
  have "np_divide (np_subtract c c) (np_subtract c c) = NaN"
    using subtract_self [of c] by (auto simp: np_divide_def)
  then have "np_multiply (np_divide (np_subtract c c) (np_subtract c c)) (Fin 255) = NaN"
    by (simp add: np_multiply_def)
  with assms show ?thesis
    by (auto simp: scale_frame_def)
qed

lemma uniform_env_final_read:
  "fst (final_read uniform_env replay_args (start fs))"
  by (simp add: uniform_env_def)

lemma uniform_env_captured_frame:
  "captured_frame uniform_env replay_args (start fs) = uniform_frame"
  by (simp add: captured_frame_def uniform_env_def uniform_frame_def)

lemma uniform_env_statistics:
  "statistics uniform_env (captured_frame uniform_env replay_args (start fs))
     = Inr (Fin 23.5, Fin 23.5, Fin 23.5, Fin 0)"
  unfolding uniform_env_captured_frame by (rule statistics_uniform_frame)

lemma filenames_distinct:
  "image_filename env a \<noteq> numpy_filename env a"
  "image_filename env a \<noteq> metadata_filename env a"
  "image_filename env a \<noteq> simple_filename env a"
  "numpy_filename env a \<noteq> metadata_filename env a"
  "numpy_filename env a \<noteq> simple_filename env a"
  "metadata_filename env a \<noteq> simple_filename env a"
  by (simp_all add: image_filename_def numpy_filename_def metadata_filename_def
      simple_filename_def)

lemma uniform_run_png:
  "files (snd (run uniform_env replay_args fs)) (image_filename uniform_env replay_args)
     = Some (Png (replicate 4 (replicate 4 0)))"
  unfolding run_def main_success(3) [OF uniform_env_final_read uniform_env_statistics]
    uniform_env_captured_frame normalized_uniform_frame
  using filenames_distinct [of uniform_env replay_args] by simp

subsection \<open>Stabilisation and camera selection\<close>

lemma stabilize_step_read_result:
  "stabilize_step (env\<lparr>read_result := rr\<rparr>) a = stabilize_step env a"
  by (intro ext) (simp add: stabilize_step_def camera_read_def)

lemma stabilize_read_result:
  "stabilize (env\<lparr>read_result := rr\<rparr>) a w = stabilize env a w"
  by (simp add: stabilize_def stabilize_step_read_result)

lemma step_events_shape:
  "hd (step_events a i) = Read" "last (step_events a i) = Sleep"
  by (simp_all add: step_events_def)

lemma count_tail_events_Read [simp]: "count_list (tail_events env a w) Read = 0"
  by (simp add: tail_events_def stats_events_def save_events_def split: sum.splits prod.splits)

lemma endswith_nonempty: "endswith f ''.npy'' \<Longrightarrow> f \<noteq> []"
  by (auto simp: endswith_def)

lemma use_emulator_iff:
  "use_emulator a \<longleftrightarrow> (\<exists>f. file_arg a = Some f \<and> endswith f ''.npy'')"
  using endswith_nonempty by (auto simp: use_emulator_def split: option.splits)

subsection \<open>Arguments the run does not depend on\<close>

lemma stabilize_cong:
  assumes "stabilization a1 = stabilization a2"
  shows "stabilize env a1 = stabilize env a2"
proof -
  have "stabilize_step env a1 = stabilize_step env a2"
    unfolding stabilize_step_def assms by (rule refl)
  then show ?thesis
    unfolding stabilize_def assms by simp
qed

lemma save_outputs_cong:
  assumes "output_folder a1 = output_folder a2"
  shows "save_outputs env a1 = save_outputs env a2"
  using assms
  by (intro ext)
    (simp add: save_outputs_def image_filename_def numpy_filename_def metadata_filename_def
      simple_filename_def)

lemma process_frame_cong:
  assumes "output_folder a1 = output_folder a2"
  shows "process_frame env a1 = process_frame env a2"
  unfolding process_frame_def save_outputs_cong [OF assms] by (rule refl)

lemma main_cong:
  assumes "init_camera a1 = init_camera a2" and "stabilization a1 = stabilization a2"
    and "output_folder a1 = output_folder a2"
  shows "main env a1 w = main env a2 w"
  unfolding main_def assms stabilize_cong [OF assms(2)] process_frame_cong [OF assms(3)]
  by (rule refl)

lemma make_camera_kwargs_offset_zero:
  "is_zero z \<Longrightarrow>
   make_camera_kwargs (a\<lparr>offset := Some z\<rparr>) = make_camera_kwargs (a\<lparr>offset := None\<rparr>)"
  by (simp add: make_camera_kwargs_def truthy_float_def)

lemma init_camera_offset_zero:
  "is_zero z \<Longrightarrow> init_camera (a\<lparr>offset := Some z\<rparr>) = init_camera (a\<lparr>offset := None\<rparr>)"
  by (intro ext) (simp add: init_camera_def make_camera_kwargs_offset_zero use_emulator_def)

lemma main_offset_zero:
  "is_zero z \<Longrightarrow> main env (a\<lparr>offset := Some z\<rparr>) w = main env (a\<lparr>offset := None\<rparr>) w"
  by (rule main_cong) (simp_all add: init_camera_offset_zero)

lemma init_camera_offset_replay:
  "use_emulator a \<Longrightarrow> init_camera (a\<lparr>offset := x\<rparr>) = init_camera a"
  by (intro ext) (simp add: init_camera_def use_emulator_def)

lemma main_offset_replay:
  "use_emulator a \<Longrightarrow> main env (a\<lparr>offset := x\<rparr>) w = main env a w"
  by (rule main_cong) (simp_all add: init_camera_offset_replay)

lemma init_camera_high_range:
  "use_emulator a \<Longrightarrow> init_camera (a\<lparr>high_range := b\<rparr>) = init_camera a"
  by (intro ext) (simp add: init_camera_def use_emulator_def)

lemma main_high_range:
  "use_emulator a \<Longrightarrow> main env (a\<lparr>high_range := b\<rparr>) w = main env a w"
  by (rule main_cong) (simp_all add: init_camera_high_range)



lemma camera_event_iff:
  "Camera kw \<in> set (trace (snd (run env a fs))) \<longleftrightarrow> \<not> use_emulator a \<and> kw = make_camera_kwargs a"
  by (simp add: run_def setup_event_main init_events_def)

lemma range_event_iff:
  "TemperatureRangeHigh \<in> set (trace (snd (run env a fs))) \<longleftrightarrow> \<not> use_emulator a \<and> high_range a"
  "WaitForRangeApplication \<in> set (trace (snd (run env a fs))) \<longleftrightarrow> \<not> use_emulator a \<and> high_range a"
  by (simp_all add: run_def setup_event_main init_events_def)

lemma use_emulator_offset [simp]: "use_emulator (a\<lparr>offset := x\<rparr>) = use_emulator a"
  by (simp add: use_emulator_def)

lemma use_emulator_high_range [simp]: "use_emulator (a\<lparr>high_range := b\<rparr>) = use_emulator a"
  by (simp add: use_emulator_def)

lemma live_args_not_emulator: "\<not> use_emulator live_args"
  by (simp add: use_emulator_def live_args_def)

lemma replay_args_emulator: "use_emulator replay_args"
  by (simp add: use_emulator_def replay_args_def endswith_def)

subsection \<open>Formatting with two decimals\<close>

lemma digit_cases:
  "d < (10::nat) \<Longrightarrow>
   d = 0 \<or> d = 1 \<or> d = 2 \<or> d = 3 \<or> d = 4 \<or> d = 5 \<or> d = 6 \<or> d = 7 \<or> d = 8 \<or> d = 9"
  by arith

lemma is_digit_digit_char: "d < 10 \<Longrightarrow> is_digit (digit_char d)"
  unfolding is_digit_def digit_char_def by (rule nth_mem) simp

lemma digit_val_digit_char: "d < 10 \<Longrightarrow> digit_val (digit_char d) = d"
  using digit_cases [of d] by (auto simp: digit_val_def digit_char_def)

lemma digit_char_zero_iff: "d < 10 \<Longrightarrow> digit_char d = CHR ''0'' \<longleftrightarrow> d = 0"
  using digit_cases [of d] by (auto simp: digit_char_def)

lemma not_digit [simp]: "\<not> is_digit CHR ''-''" "\<not> is_digit CHR ''.''" "\<not> is_digit CHR ''\<newline>''"
  by (simp_all add: is_digit_def)

lemma str_nat_digits: "list_all is_digit (str_nat n)"
proof (induction n rule: str_nat.induct)
  case (1 n)
  show ?case
  proof (cases "n < 10")
    case True
    then show ?thesis
      by (subst str_nat.simps) (simp add: is_digit_digit_char)
  next
    case False
    with "1.IH" show ?thesis
      by (subst str_nat.simps) (simp add: is_digit_digit_char)
  qed
qed

lemma str_nat_nonempty: "str_nat n \<noteq> []"
  by (subst str_nat.simps) simp

lemma str_nat_zero: "str_nat 0 = ''0''"
  by (subst str_nat.simps) (simp add: digit_char_def)

lemma str_nat_hd: "0 < n \<Longrightarrow> hd (str_nat n) \<noteq> CHR ''0''"
proof (induction n rule: str_nat.induct)
  case (1 n)
  show ?case
  proof (cases "n < 10")
    case True
    with "1.prems" show ?thesis
      by (subst str_nat.simps) (simp add: digit_char_zero_iff)
  next
    case False
    then have "0 < n div 10" by simp
    with "1.IH" [OF False] have "hd (str_nat (n div 10)) \<noteq> CHR ''0''" by simp
    with False show ?thesis
      by (subst str_nat.simps) (simp add: str_nat_nonempty)
  qed
qed

lemma canonical_str_nat: "canonical_nat (str_nat n)"
proof (cases "n = 0")
  case True
  then show ?thesis
    by (simp add: canonical_nat_def str_nat_zero is_digit_def)
next
  case False
  then show ?thesis
    by (simp add: canonical_nat_def str_nat_nonempty str_nat_digits str_nat_hd)
qed

lemma digits_val_snoc: "digits_val (s @ [c]) = 10 * digits_val s + digit_val c"
  by (simp add: digits_val_def)

lemma digits_val_str_nat: "digits_val (str_nat n) = n"
proof (induction n rule: str_nat.induct)
  case (1 n)
  show ?case
  proof (cases "n < 10")
    case True
    then show ?thesis
      by (subst str_nat.simps) (simp add: digits_val_def digit_val_digit_char)
  next
    case False
    with "1.IH" show ?thesis
      by (subst str_nat.simps) (simp add: digits_val_snoc digit_val_digit_char)
  qed
qed

lemma filter_digits_str_nat: "filter is_digit (str_nat n) = str_nat n"
  using str_nat_digits [of n] by (simp add: list_all_iff)

lemma round_half_even_nearest:
  assumes "0 \<le> y"
  shows "0 \<le> round_half_even y"
    and "\<bar>real_of_int (round_half_even y) - y\<bar> \<le> 1 / 2"
    and "\<bar>real_of_int (round_half_even y) - y\<bar> = 1 / 2 \<longrightarrow> even (round_half_even y)"
proof -
  have f: "of_int \<lfloor>y\<rfloor> \<le> y" "y < of_int \<lfloor>y\<rfloor> + 1" by linarith+
  have n: "0 \<le> \<lfloor>y\<rfloor>" using assms by simp
  show "0 \<le> round_half_even y"
    using n by (simp add: round_half_even_def Let_def)
  show "\<bar>real_of_int (round_half_even y) - y\<bar> \<le> 1 / 2"
    using f by (simp add: round_half_even_def Let_def)
  show "\<bar>real_of_int (round_half_even y) - y\<bar> = 1 / 2 \<longrightarrow> even (round_half_even y)"
    using f by (auto simp: round_half_even_def Let_def)
qed

lemma fmt2f_finite:
  "fmt2f (Fin x) =
     (if x < 0 then ''-'' else []) @ str_nat (nat (round_half_even (\<bar>x\<bar> * 100)) div 100) @ ''.''
     @ [digit_char (nat (round_half_even (\<bar>x\<bar> * 100)) div 10 mod 10),
        digit_char (nat (round_half_even (\<bar>x\<bar> * 100)) mod 10)]"
  by (simp add: fmt2f_def Let_def)

lemma decimal2_shape:
  assumes "a < 10" and "b < 10"
  shows "decimal2 ((if neg then ''-'' else []) @ str_nat k @ ''.'' @ [digit_char a, digit_char b])"
proof -
  obtain c cs where k: "str_nat k = c # cs"
    using str_nat_nonempty [of k] by (cases "str_nat k") auto
  have "is_digit c"
    using str_nat_digits [of k] k by simp
  then have c: "c \<noteq> CHR ''-''"
    using not_digit(1) by blast
  have s: "strip_sign ((if neg then ''-'' else []) @ str_nat k @ ''.'' @ [digit_char a, digit_char b])
             = str_nat k @ ''.'' @ [digit_char a, digit_char b]"
    using c by (simp add: k)
  show ?thesis
    unfolding decimal2_def s using assms
    by (simp add: is_digit_digit_char canonical_str_nat)
qed

lemma printed_negative_shape:
  "printed_negative ((if neg then ''-'' else []) @ str_nat k @ rest) = neg"
proof -
  obtain c cs where k: "str_nat k = c # cs"
    using str_nat_nonempty [of k] by (cases "str_nat k") auto
  have "is_digit c"
    using str_nat_digits [of k] k by simp
  then have "c \<noteq> CHR ''-''"
    using not_digit(1) by blast
  then show ?thesis
    by (simp add: printed_negative_def k)
qed

lemma printed_hundredths_shape:
  assumes "a < 10" and "b < 10"
  shows "printed_hundredths ((if neg then ''-'' else []) @ str_nat k @ ''.'' @ [digit_char a, digit_char b])
           = 100 * k + 10 * a + b"
proof -
  have "filter is_digit ((if neg then ''-'' else []) @ str_nat k @ ''.'' @ [digit_char a, digit_char b])
          = (str_nat k @ [digit_char a]) @ [digit_char b]"
    using assms by (simp add: filter_digits_str_nat is_digit_digit_char)
  then show ?thesis
    using assms
    by (simp only: printed_hundredths_def digits_val_snoc digits_val_str_nat digit_val_digit_char)
      simp
qed

lemma hundredths_digits:
  "100 * (n div 100) + 10 * (n div 10 mod 10) + n mod 10 = (n::nat)"
proof -
  have "n mod (10 * 10) = 10 * (n div 10 mod 10) + n mod 10"
    by (rule mod_mult2_eq)
  then have "n mod 100 = 10 * (n div 10 mod 10) + n mod 10"
    by simp
  moreover have "100 * (n div 100) + n mod 100 = n"
    by simp
  ultimately show ?thesis
    by linarith
qed

lemma fmt2f_prints_as: "prints_as v (fmt2f v)"
proof (cases v)
  case (Fin x)
  let ?q = "nat (round_half_even (\<bar>x\<bar> * 100))"
  have y: "0 \<le> \<bar>x\<bar> * 100" by simp
  note r = round_half_even_nearest [OF y]
  have q: "real ?q = real_of_int (round_half_even (\<bar>x\<bar> * 100))"
    using r(1) by simp
  have e: "even ?q \<longleftrightarrow> even (round_half_even (\<bar>x\<bar> * 100))"
    using r(1) by (simp add: even_nat_iff)
  have d: "100 * (?q div 100) + 10 * (?q div 10 mod 10) + ?q mod 10 = ?q"
    by (rule hundredths_digits)
  have b: "?q div 10 mod 10 < 10" "?q mod 10 < 10" by simp_all
  have n: "nearest_even (\<bar>x\<bar> * 100) ?q"
    unfolding nearest_even_def q e using r(2,3) by (rule conjI)
  have "decimal2 (fmt2f (Fin x))"
    unfolding fmt2f_finite by (rule decimal2_shape [OF b])
  moreover have "printed_negative (fmt2f (Fin x)) = (x < 0)"
    unfolding fmt2f_finite by (rule printed_negative_shape)
  moreover have "printed_hundredths (fmt2f (Fin x)) = ?q"
    unfolding fmt2f_finite printed_hundredths_shape [OF b] by (rule d)
  ultimately show ?thesis
    using n by (simp add: Fin prints_as_def sign_bit_def real_of_def)
next
  case NegZero
  have "fmt2f NegZero = ''-0.00''"
    by (simp add: fmt2f_def)
  moreover have "decimal2 ''-0.00''"
    by (simp add: decimal2_def canonical_nat_def is_digit_def)
  moreover have "printed_negative ''-0.00''"
    by (simp add: printed_negative_def)
  moreover have "printed_hundredths ''-0.00'' = 0"
    by (simp add: printed_hundredths_def is_digit_def digits_val_def digit_val_def)
  ultimately show ?thesis
    by (simp add: NegZero prints_as_def nearest_even_def sign_bit_def real_of_def)
next
  case NaN
  then show ?thesis by (simp add: prints_as_def fmt2f_def)
next
  case PInf
  then show ?thesis by (simp add: prints_as_def fmt2f_def)
next
  case NInf
  then show ?thesis by (simp add: prints_as_def fmt2f_def)
qed

lemma fmt2f_no_newline: "CHR ''\<newline>'' \<notin> set (fmt2f v)"
proof (cases v)
  case (Fin x)
  let ?q = "nat (round_half_even (\<bar>x\<bar> * 100))"
  have s: "\<forall>c \<in> set (str_nat (?q div 100)). is_digit c"
    using str_nat_digits [of "?q div 100"] by (simp add: list_all_iff)
  have a: "is_digit (digit_char (?q div 10 mod 10))"
    by (rule is_digit_digit_char) simp
  have b: "is_digit (digit_char (?q mod 10))"
    by (rule is_digit_digit_char) simp
  have "c \<in> set (fmt2f (Fin x)) \<Longrightarrow> is_digit c \<or> c = CHR ''-'' \<or> c = CHR ''.''" for c
    unfolding fmt2f_finite using s a b by (auto split: if_splits)
  then show ?thesis
    unfolding Fin using not_digit(3) by fastforce
qed (simp_all add: fmt2f_def)

lemma fmt2f_23_5: "fmt2f (Fin 23.5) = ''23.50''"
  by (simp add: fmt2f_def round_half_even_def str_nat.simps digit_char_def)

subsection \<open>The least and the greatest element\<close>

lemma np_less_irrefl [simp]: "\<not> np_less a a"
  by (cases a) (simp_all add: np_less_def)

lemma np_less_asym: "np_less a b \<Longrightarrow> \<not> np_less b a"
  by (cases a; cases b) (simp_all add: np_less_def real_of_def)

lemma not_less_trans:
  assumes "a \<noteq> NaN" and "b \<noteq> NaN" and "c \<noteq> NaN"
    and "\<not> np_less b a" and "\<not> np_less c b"
  shows "\<not> np_less c a"
  using assms by (cases a; cases b; cases c) (simp_all add: np_less_def real_of_def)

lemma np_less_zero:
  assumes "is_zero v" and "is_zero z"
  shows "np_less t z = np_less t v" and "np_less z t = np_less v t"
  using assms by (auto simp: is_zero_def np_less_def real_of_def)

lemma fold_minimum:
  assumes "NaN \<notin> set xs" and "acc \<noteq> NaN"
  shows "(fold (\<lambda>e acc. minimum acc e) xs acc = acc
            \<or> fold (\<lambda>e acc. minimum acc e) xs acc \<in> set xs)
       \<and> fold (\<lambda>e acc. minimum acc e) xs acc \<noteq> NaN
       \<and> \<not> np_less acc (fold (\<lambda>e acc. minimum acc e) xs acc)
       \<and> (\<forall>t \<in> set xs. \<not> np_less t (fold (\<lambda>e acc. minimum acc e) xs acc))"
  using assms
proof (induction xs arbitrary: acc)
  case Nil
  then show ?case by simp
next
  case (Cons x xs)
  let ?a = "minimum acc x"
  let ?r = "fold (\<lambda>e acc. minimum acc e) xs ?a"
  have x: "x \<noteq> NaN" and xs: "NaN \<notin> set xs"
    using Cons.prems(1) by auto
  have a: "?a \<noteq> NaN" "?a = acc \<or> ?a = x" "\<not> np_less acc ?a" "\<not> np_less x ?a"
    using x Cons.prems(2) np_less_asym [of x acc] by (auto simp: minimum_def)
  note ih = Cons.IH [OF xs a(1)]
  have r: "?r \<noteq> NaN" using ih by blast
  have 1: "\<not> np_less acc ?r"
    using not_less_trans [OF r a(1) Cons.prems(2)] ih a(3) by blast
  have 2: "\<not> np_less x ?r"
    using not_less_trans [OF r a(1) x] ih a(4) by blast
  from ih a(2) 1 2 show ?case
    by auto
qed

lemma fold_maximum:
  assumes "NaN \<notin> set xs" and "acc \<noteq> NaN"
  shows "(fold (\<lambda>e acc. maximum acc e) xs acc = acc
            \<or> fold (\<lambda>e acc. maximum acc e) xs acc \<in> set xs)
       \<and> fold (\<lambda>e acc. maximum acc e) xs acc \<noteq> NaN
       \<and> \<not> np_less (fold (\<lambda>e acc. maximum acc e) xs acc) acc
       \<and> (\<forall>t \<in> set xs. \<not> np_less (fold (\<lambda>e acc. maximum acc e) xs acc) t)"
  using assms
proof (induction xs arbitrary: acc)
  case Nil
  then show ?case by simp
next
  case (Cons x xs)
  let ?a = "maximum acc x"
  let ?r = "fold (\<lambda>e acc. maximum acc e) xs ?a"
  have x: "x \<noteq> NaN" and xs: "NaN \<notin> set xs"
    using Cons.prems(1) by auto
  have a: "?a \<noteq> NaN" "?a = acc \<or> ?a = x" "\<not> np_less ?a acc" "\<not> np_less ?a x"
    using x Cons.prems(2) np_less_asym [of acc x] by (auto simp: maximum_def)
  note ih = Cons.IH [OF xs a(1)]
  have r: "?r \<noteq> NaN" using ih by blast
  have 1: "\<not> np_less ?r acc"
    using not_less_trans [OF Cons.prems(2) a(1) r] ih a(3) by blast
  have 2: "\<not> np_less ?r x"
    using not_less_trans [OF x a(1) r] ih a(4) by blast
  from ih a(2) 1 2 show ?case
    by auto
qed

lemma min_value_least:
  assumes "xs \<noteq> []"
  shows "min_value env xs \<in> set xs"
    and "NaN \<in> set xs \<Longrightarrow> min_value env xs = NaN"
    and "NaN \<notin> set xs \<Longrightarrow> t \<in> set xs \<Longrightarrow> \<not> np_less t (min_value env xs)"
proof -
  let ?r = "fold (\<lambda>e acc. minimum acc e) xs PInf"
  show n: "NaN \<in> set xs \<Longrightarrow> min_value env xs = NaN"
    by (simp add: min_value_def)
  have f: "(?r = PInf \<or> ?r \<in> set xs) \<and> ?r \<noteq> NaN \<and> (\<forall>t \<in> set xs. \<not> np_less t ?r)"
    if "NaN \<notin> set xs"
    using fold_minimum [OF that, of PInf] by simp
  have m: "?r \<in> set xs" if h: "NaN \<notin> set xs"
  proof (cases "?r = PInf")
    case True
    obtain x where x: "x \<in> set xs" using assms by (cases xs) auto
    with f [OF h] True have "\<not> np_less x PInf" by metis
    moreover have "x \<noteq> NaN" using x h by auto
    ultimately have "x = PInf" by (cases x) (simp_all add: np_less_def)
    with x True show ?thesis by simp
  next
    case False
    with f [OF h] show ?thesis by blast
  qed
  show "min_value env xs \<in> set xs"
    using n m by (cases "NaN \<in> set xs") (auto simp: min_value_def)
  show "\<not> np_less t (min_value env xs)" if h: "NaN \<notin> set xs" and t: "t \<in> set xs"
  proof -
    have l: "\<not> np_less t ?r" using f [OF h] t by blast
    have "np_less t z = np_less t ?r" if "is_zero ?r" "is_zero z" for z
      using np_less_zero(1) [OF that] .
    with l h show ?thesis
      by (auto simp: min_value_def is_zero_def)
  qed
qed

lemma max_value_greatest:
  assumes "xs \<noteq> []"
  shows "max_value env xs \<in> set xs"
    and "NaN \<in> set xs \<Longrightarrow> max_value env xs = NaN"
    and "NaN \<notin> set xs \<Longrightarrow> t \<in> set xs \<Longrightarrow> \<not> np_less (max_value env xs) t"
proof -
  let ?r = "fold (\<lambda>e acc. maximum acc e) xs NInf"
  show n: "NaN \<in> set xs \<Longrightarrow> max_value env xs = NaN"
    by (simp add: max_value_def)
  have f: "(?r = NInf \<or> ?r \<in> set xs) \<and> ?r \<noteq> NaN \<and> (\<forall>t \<in> set xs. \<not> np_less ?r t)"
    if "NaN \<notin> set xs"
    using fold_maximum [OF that, of NInf] by simp
  have m: "?r \<in> set xs" if h: "NaN \<notin> set xs"
  proof (cases "?r = NInf")
    case True
    obtain x where x: "x \<in> set xs" using assms by (cases xs) auto
    with f [OF h] True have "\<not> np_less NInf x" by metis
    moreover have "x \<noteq> NaN" using x h by auto
    ultimately have "x = NInf" by (cases x) (simp_all add: np_less_def)
    with x True show ?thesis by simp
  next
    case False
    with f [OF h] show ?thesis by blast
  qed
  show "max_value env xs \<in> set xs"
    using n m by (cases "NaN \<in> set xs") (auto simp: max_value_def)
  show "\<not> np_less (max_value env xs) t" if h: "NaN \<notin> set xs" and t: "t \<in> set xs"
  proof -
    have l: "\<not> np_less ?r t" using f [OF h] t by blast
    have "np_less z t = np_less ?r t" if "is_zero ?r" "is_zero z" for z
      using np_less_zero(2) [OF that] .
    with l h show ?thesis
      by (auto simp: max_value_def is_zero_def)
  qed
qed

lemma least_of_min_value: "xs \<noteq> [] \<Longrightarrow> least_of xs (min_value env xs)"
  using min_value_least [where xs = xs and env = env] by (auto simp: least_of_def)

lemma greatest_of_max_value: "xs \<noteq> [] \<Longrightarrow> greatest_of xs (max_value env xs)"
  using max_value_greatest [where xs = xs and env = env] by (auto simp: greatest_of_def)

subsection \<open>The written files\<close>

lemma run_files_success:
  assumes "fst (final_read env a (start fs))"
    and "concat (captured_frame env a (start fs)) \<noteq> []"
  shows "files (snd (run env a fs)) =
           fs(image_filename env a \<mapsto>
                Png (temp_normalized (captured_frame env a (start fs))
                       (min_value env (concat (captured_frame env a (start fs))))
                       (max_value env (concat (captured_frame env a (start fs))))),
              numpy_filename env a \<mapsto> Npy (captured_frame env a (start fs)),
              metadata_filename env a \<mapsto>
                Text (metadata_text env
                       (min_value env (concat (captured_frame env a (start fs))))
                       (max_value env (concat (captured_frame env a (start fs))))
                       (np_mean env (captured_frame env a (start fs)))
                       (np_std (captured_frame env a (start fs)))),
              simple_filename env a \<mapsto>
                Text (simple_text (min_value env (concat (captured_frame env a (start fs))))
                       (max_value env (concat (captured_frame env a (start fs))))))"
  unfolding run_def main_success(3) [OF assms(1) statistics_nonempty [OF assms(2)]]
  by simp

lemma nan_env_final_read: "fst (final_read nan_env replay_args (start fs))"
  by (simp add: nan_env_def uniform_env_def)

lemma nan_env_captured_frame: "captured_frame nan_env replay_args (start fs) = [[NaN, NaN]]"
  by (simp add: captured_frame_def nan_env_def uniform_env_def)

section \<open>The claims\<close>

subsection \<open>Failed final read\<close>

text \<open>
  Claim C3. Whenever the final capture read answers \<open>success = false\<close>, the run prints
  the message \<^verbatim>\<open>Error: could not read frame from camera\<close>, then calls
  \<^verbatim>\<open>camera.release()\<close> (once in the whole run), and returns without an exception. No
  file is written: the files on disk are those the run found, and the trace holds no
  write call.
\<close>

theorem failed_final_read_clean_exit:
  assumes "\<not> fst (final_read env a (start fs))"
  shows "fst (run env a fs) = None
       \<and> trace (snd (run env a fs)) =
           capture_events env a @ [Print ''Error: could not read frame from camera'', Release]
       \<and> count_list (trace (snd (run env a fs))) Release = 1
       \<and> files (snd (run env a fs)) = fs
       \<and> (\<forall>e \<in> set (trace (snd (run env a fs))). \<not> write_event e)"
proof -
  have "\<forall>e \<in> set (capture_events env a). \<not> write_event e"
    using write_event_capture by blast
  with main_failed_read [OF assms] show ?thesis
    by (simp add: run_def)
qed

theorem failed_final_read_clean_exit_witness:
  "\<not> fst (final_read failing_env replay_args (start Map.empty))
   \<and> fst (run failing_env replay_args Map.empty) = None
   \<and> count_list (trace (snd (run failing_env replay_args Map.empty))) Release = 1
   \<and> files (snd (run failing_env replay_args Map.empty)) = Map.empty"
  using failed_final_read_clean_exit [of failing_env replay_args Map.empty]
  by (simp add: failing_env_def replay_args_def)

subsection \<open>Statistics of an empty matrix\<close>

text \<open>
  Claim C4. On a temperature matrix with no element the statistics fail: the first
  reduction, \<^verbatim>\<open>np.min\<close>, raises numpy's \<^verbatim>\<open>ValueError\<close> for a zero-size array (the
  script's realisation of the empty-input error), so none of the four statistics gets a
  value. A run whose captured matrix is empty ends with that error right after the
  conversion: no statistic is printed and no file is written.
\<close>

theorem empty_matrix_statistics_fail:
  assumes "concat m = []"
  shows "np_min env m = Inl ValueError
       \<and> statistics env m = Inl ValueError
       \<and> (fst (final_read env a (start fs)) \<and> captured_frame env a (start fs) = m \<longrightarrow>
            fst (run env a fs) = Some ValueError
          \<and> trace (snd (run env a fs)) =
              capture_events env a @ [Info, ConvertToFrame (snd (final_read env a (start fs)))]
          \<and> files (snd (run env a fs)) = fs)"
proof -
  have s: "statistics env m = Inl ValueError"
    using assms by (rule statistics_empty)
  have "fst (run env a fs) = Some ValueError
        \<and> trace (snd (run env a fs)) =
            capture_events env a @ [Info, ConvertToFrame (snd (final_read env a (start fs)))]
        \<and> files (snd (run env a fs)) = fs"
    if h: "fst (final_read env a (start fs)) \<and> captured_frame env a (start fs) = m"
  proof -
    from h s have r: "fst (final_read env a (start fs))"
      and c: "statistics env (captured_frame env a (start fs)) = Inl ValueError"
      by simp_all
    from main_raises [OF r c] show ?thesis
      by (simp add: run_def)
  qed
  with s np_min_empty [OF assms] show ?thesis
    by blast
qed

theorem empty_matrix_statistics_fail_witness:
  "concat ([[], []] :: temp_frame) = [] \<and> statistics degenerate_env [[], []] = Inl ValueError
   \<and> fst (final_read degenerate_env replay_args (start Map.empty))
   \<and> captured_frame degenerate_env replay_args (start Map.empty) = []
   \<and> fst (run degenerate_env replay_args Map.empty) = Some ValueError"
  using empty_matrix_statistics_fail [where m = "[[], []]" and env = degenerate_env]
    empty_matrix_statistics_fail
      [where m = "[]" and env = degenerate_env and a = replay_args and fs = Map.empty]
  by (simp add: degenerate_env_def uniform_env_def replay_args_def captured_frame_def)

subsection \<open>Normalisation of a uniform frame\<close>

text \<open>
  Claim C1 says that a matrix whose elements are all equal is rendered with every element
  at 0 and that no division by zero occurs. Line 117 divides by
  \<^verbatim>\<open>temp_max - temp_min\<close> with no test for zero. On the 4 by 4 frame of 23.5 the minimum
  and the maximum are both 23.5, the divisor and every numerator are zero, and every
  element is computed as \<open>0 / 0\<close>, which is NaN: the division by zero does occur, sixteen
  times.
\<close>

theorem uniform_frame_divides_by_zero:
  "statistics uniform_env uniform_frame = Inr (Fin 23.5, Fin 23.5, Fin 23.5, Fin 0)
   \<and> np_subtract (Fin 23.5) (Fin 23.5) = Fin 0
   \<and> np_divide (np_subtract (Fin 23.5) (Fin 23.5)) (np_subtract (Fin 23.5) (Fin 23.5)) = NaN
   \<and> scale_frame uniform_frame (Fin 23.5) (Fin 23.5) = replicate 4 (replicate 4 NaN)"
proof -
  have "np_subtract (Fin 23.5) (Fin 23.5) = Fin 0"
    by (simp add: np_subtract_def np_add_def np_negative_def real_of_def)
  with statistics_uniform_frame [of uniform_env] divide_self [of "23.5"] scale_uniform_frame
  show ?thesis by (intro conjI)
qed

subsection \<open>Release of the camera\<close>




subsection \<open>Stabilisation\<close>

text \<open>
  Claim C5. For a stabilisation count \<open>N \<ge> 0\<close> the stabilisation loop appends to the trace
  exactly \<open>N\<close> iterations, each of which starts with one \<^verbatim>\<open>camera.read()\<close> and ends with
  one pause (\<^verbatim>\<open>time.sleep(0.01)\<close>): \<open>N\<close> reads and \<open>N\<close> pauses in all, and nothing at all when
  \<open>N\<close> is zero. The answers of these reads are discarded: the loop leaves the same world
  whatever the reads answer, and it writes no file. Whatever they answer, the run goes on
  to the final capture read, which is read number \<open>N + 1\<close>.
\<close>

theorem stabilization_reads_and_discards:
  assumes "0 \<le> stabilization a"
  shows "trace (stabilize env a w) = trace w @ concat (map (step_events a) [0 ..< nat (stabilization a)])
       \<and> (\<forall>i. hd (step_events a i) = Read \<and> last (step_events a i) = Sleep
              \<and> count_list (step_events a i) Read = 1 \<and> count_list (step_events a i) Sleep = 1)
       \<and> int (count_list (trace (stabilize env a (start fs))) Read) = stabilization a
       \<and> int (count_list (trace (stabilize env a (start fs))) Sleep) = stabilization a
       \<and> int (nreads (stabilize env a w)) = int (nreads w) + stabilization a
       \<and> files (stabilize env a w) = files w
       \<and> (stabilization a = 0 \<longrightarrow> stabilize env a w = w)
       \<and> stabilize (env\<lparr>read_result := rr\<rparr>) a w = stabilize env a w
       \<and> int (count_list (trace (snd (run env a fs))) Read) = stabilization a + 1
       \<and> Print ''Capturing final frame...'' \<in> set (trace (snd (run env a fs)))"
proof -
  have z: "stabilization a = 0 \<longrightarrow> stabilize env a w = w"
    by (simp add: stabilize_def)
  have c: "Print ''Capturing final frame...'' \<in> set (trace (snd (run env a fs)))"
    by (simp add: run_def trace_main capture_events_def)
  from assms z c show ?thesis
    by (simp add: stabilize_events_def [symmetric] step_events_shape stabilize_read_result
        run_def trace_main)
qed

theorem stabilization_reads_and_discards_witness:
  "0 \<le> stabilization replay_args
   \<and> trace (stabilize failing_env replay_args (start Map.empty)) = [Read, Sleep, Read, Sleep]
   \<and> int (count_list (trace (snd (run failing_env replay_args Map.empty))) Read)
       = stabilization replay_args + 1"
  using stabilization_reads_and_discards [of replay_args failing_env "start Map.empty" Map.empty]
  by (simp add: replay_args_def step_events_def numeral_2_eq_2)

subsection \<open>Selection of the replay camera\<close>

text \<open>
  Claim C6 says that every positional file argument switches the camera to the replay
  variant. Line 52 also requires the name to end in \<^verbatim>\<open>.npy\<close>: with the argument
  \<^verbatim>\<open>frames.bin\<close> no emulator is built and the live camera is constructed instead.
\<close>

theorem replay_file_without_npy_counterexample:
  "file_arg (replay_args\<lparr>file_arg := Some ''frames.bin''\<rparr>) = Some ''frames.bin''
   \<and> CameraEmulator ''frames.bin''
       \<notin> set (trace (snd (run uniform_env (replay_args\<lparr>file_arg := Some ''frames.bin''\<rparr>) Map.empty)))
   \<and> Camera \<lparr>camera_raw = None, video_dev = None, fixed_offset = None\<rparr>
       \<in> set (trace (snd (run uniform_env (replay_args\<lparr>file_arg := Some ''frames.bin''\<rparr>) Map.empty)))"
  by (simp add: run_def setup_event_main init_events_def use_emulator_def endswith_def
      replay_args_def make_camera_kwargs_def truthy_str_def truthy_float_def)

text \<open>
  Claim C6, amended. For every invocation with a positional file argument whose name ends
  in \<^verbatim>\<open>.npy\<close>, the camera is the replay (emulator) variant over that file, and no live
  camera or video device is opened; with a file argument of any other name the live camera
  is constructed and no emulator is.
\<close>

theorem replay_selected_by_npy_suffix:
  assumes "file_arg a = Some f"
  shows "(endswith f ''.npy'' \<longrightarrow>
            CameraEmulator f \<in> set (trace (snd (run env a fs)))
          \<and> (\<forall>g. CameraEmulator g \<in> set (trace (snd (run env a fs))) \<longrightarrow> g = f)
          \<and> (\<forall>kw. Camera kw \<notin> set (trace (snd (run env a fs))))
          \<and> (\<forall>p. VideoCapture p \<notin> set (trace (snd (run env a fs)))))
       \<and> (\<not> endswith f ''.npy'' \<longrightarrow>
            Camera (make_camera_kwargs a) \<in> set (trace (snd (run env a fs)))
          \<and> (\<forall>g. CameraEmulator g \<notin> set (trace (snd (run env a fs)))))"
proof -
  have u: "use_emulator a \<longleftrightarrow> endswith f ''.npy''"
    using assms by (simp add: use_emulator_iff)
  show ?thesis
    using assms by (simp add: run_def setup_event_main init_events_def u)
qed

theorem replay_selected_by_npy_suffix_witness:
  "file_arg replay_args = Some ''frames.npy'' \<and> endswith ''frames.npy'' ''.npy''
   \<and> CameraEmulator ''frames.npy'' \<in> set (trace (snd (run uniform_env replay_args Map.empty)))
   \<and> file_arg (replay_args\<lparr>file_arg := Some ''frames.bin''\<rparr>) = Some ''frames.bin''
   \<and> \<not> endswith ''frames.bin'' ''.npy''
   \<and> Camera (make_camera_kwargs (replay_args\<lparr>file_arg := Some ''frames.bin''\<rparr>))
       \<in> set (trace (snd (run uniform_env (replay_args\<lparr>file_arg := Some ''frames.bin''\<rparr>) Map.empty)))"
  using replay_selected_by_npy_suffix [of replay_args "''frames.npy''" uniform_env Map.empty]
    replay_selected_by_npy_suffix [of "replay_args\<lparr>file_arg := Some ''frames.bin''\<rparr>"
      "''frames.bin''" uniform_env Map.empty]
  by (simp add: replay_args_def endswith_def)

subsection \<open>The fixed offset\<close>

text \<open>
  Claim C9 says that an offset of 0.0 is dropped while any non-zero offset is passed
  through to the camera, for every invocation. The test of line 63 sits in the branch
  that constructs the live camera: when the replay variant is selected the emulator is
  constructed from the file alone, and the offset 1.5 is dropped like 0.0.
\<close>

theorem nonzero_offset_dropped_under_replay_counterexample:
  "use_emulator (replay_args\<lparr>offset := Some (Fin (3 / 2))\<rparr>)
   \<and> \<not> is_zero (Fin (3 / 2))
   \<and> CameraEmulator ''frames.npy''
       \<in> set (trace (snd (run uniform_env (replay_args\<lparr>offset := Some (Fin (3 / 2))\<rparr>) Map.empty)))
   \<and> Camera (make_camera_kwargs (replay_args\<lparr>offset := Some (Fin (3 / 2))\<rparr>))
       \<notin> set (trace (snd (run uniform_env (replay_args\<lparr>offset := Some (Fin (3 / 2))\<rparr>) Map.empty)))
   \<and> run uniform_env (replay_args\<lparr>offset := Some (Fin (3 / 2))\<rparr>) Map.empty
       = run uniform_env replay_args Map.empty"
proof -
  let ?a = "replay_args\<lparr>offset := Some (Fin (3 / 2))\<rparr>"
  have u: "use_emulator ?a"
    using replay_args_emulator by simp
  have z: "\<not> is_zero (Fin (3 / 2))"
    by (simp add: is_zero_def)
  have e: "CameraEmulator ''frames.npy'' \<in> set (trace (snd (run uniform_env ?a Map.empty)))"
    using u by (simp add: run_def setup_event_main init_events_def replay_args_def)
  have c: "Camera (make_camera_kwargs ?a) \<notin> set (trace (snd (run uniform_env ?a Map.empty)))"
    unfolding camera_event_iff using u by simp
  have r: "run uniform_env ?a Map.empty = run uniform_env replay_args Map.empty"
    unfolding run_def using replay_args_emulator by (rule main_offset_replay)
  from u z e c r show ?thesis by (intro conjI)
qed

text \<open>
  Claim C9, amended. For every invocation, an offset of 0.0 is dropped by the truthiness
  test: the run is the one made with no offset option, and the keyword dictionary holds
  no \<^verbatim>\<open>fixed_offset\<close>. Any non-zero offset \<open>x\<close> (NaN included) is entered in the
  dictionary as \<^verbatim>\<open>fixed_offset = x\<close> and is passed to the live camera when the live
  camera is the one constructed. When the replay variant is selected no live camera is
  constructed and every offset is dropped: the run is the one made with no offset option.
\<close>

theorem offset_reaches_only_the_live_camera:
  "(is_zero z \<longrightarrow>
      run env (a\<lparr>offset := Some z\<rparr>) fs = run env (a\<lparr>offset := None\<rparr>) fs
    \<and> fixed_offset (make_camera_kwargs (a\<lparr>offset := Some z\<rparr>)) = None)
   \<and> (\<not> is_zero x \<longrightarrow> fixed_offset (make_camera_kwargs (a\<lparr>offset := Some x\<rparr>)) = Some x)
   \<and> (\<not> is_zero x \<and> \<not> use_emulator a \<longrightarrow>
        Camera (make_camera_kwargs (a\<lparr>offset := Some x\<rparr>))
          \<in> set (trace (snd (run env (a\<lparr>offset := Some x\<rparr>) fs)))
      \<and> (\<forall>kw. Camera kw \<in> set (trace (snd (run env (a\<lparr>offset := Some x\<rparr>) fs)))
              \<longrightarrow> fixed_offset kw = Some x))
   \<and> (use_emulator a \<longrightarrow>
        run env (a\<lparr>offset := Some x\<rparr>) fs = run env (a\<lparr>offset := None\<rparr>) fs
      \<and> (\<forall>kw. Camera kw \<notin> set (trace (snd (run env (a\<lparr>offset := Some x\<rparr>) fs)))))"
proof -
  have 1: "is_zero z \<longrightarrow>
      run env (a\<lparr>offset := Some z\<rparr>) fs = run env (a\<lparr>offset := None\<rparr>) fs
    \<and> fixed_offset (make_camera_kwargs (a\<lparr>offset := Some z\<rparr>)) = None"
    unfolding run_def by (simp add: main_offset_zero make_camera_kwargs_def truthy_float_def)
  have 2: "\<not> is_zero x \<longrightarrow> fixed_offset (make_camera_kwargs (a\<lparr>offset := Some x\<rparr>)) = Some x"
    by (simp add: make_camera_kwargs_def truthy_float_def)
  have 3: "\<not> is_zero x \<and> \<not> use_emulator a \<longrightarrow>
        Camera (make_camera_kwargs (a\<lparr>offset := Some x\<rparr>))
          \<in> set (trace (snd (run env (a\<lparr>offset := Some x\<rparr>) fs)))
      \<and> (\<forall>kw. Camera kw \<in> set (trace (snd (run env (a\<lparr>offset := Some x\<rparr>) fs)))
              \<longrightarrow> fixed_offset kw = Some x)"
    using 2 by (simp add: camera_event_iff)
  have 4: "use_emulator a \<longrightarrow>
        run env (a\<lparr>offset := Some x\<rparr>) fs = run env (a\<lparr>offset := None\<rparr>) fs
      \<and> (\<forall>kw. Camera kw \<notin> set (trace (snd (run env (a\<lparr>offset := Some x\<rparr>) fs))))"
    unfolding run_def camera_event_iff [unfolded run_def]
    by (simp add: main_offset_replay)
  from 1 2 3 4 show ?thesis by (intro conjI)
qed

theorem offset_reaches_only_the_live_camera_witness:
  "is_zero (Fin 0)
   \<and> run uniform_env (live_args\<lparr>offset := Some (Fin 0)\<rparr>) Map.empty
       = run uniform_env (live_args\<lparr>offset := None\<rparr>) Map.empty
   \<and> \<not> is_zero (Fin (3 / 2)) \<and> \<not> use_emulator live_args
   \<and> fixed_offset (make_camera_kwargs (live_args\<lparr>offset := Some (Fin (3 / 2))\<rparr>)) = Some (Fin (3 / 2))
   \<and> Camera (make_camera_kwargs (live_args\<lparr>offset := Some (Fin (3 / 2))\<rparr>))
       \<in> set (trace (snd (run uniform_env (live_args\<lparr>offset := Some (Fin (3 / 2))\<rparr>) Map.empty)))
   \<and> use_emulator replay_args
   \<and> run uniform_env (replay_args\<lparr>offset := Some (Fin (3 / 2))\<rparr>) Map.empty
       = run uniform_env (replay_args\<lparr>offset := None\<rparr>) Map.empty"
proof -
  have z: "is_zero (Fin 0)" "\<not> is_zero (Fin (3 / 2))"
    by (simp_all add: is_zero_def)
  from z live_args_not_emulator replay_args_emulator
    offset_reaches_only_the_live_camera
      [where z = "Fin 0" and x = "Fin (3 / 2)" and a = live_args and env = uniform_env
        and fs = Map.empty]
    offset_reaches_only_the_live_camera
      [where z = "Fin 0" and x = "Fin (3 / 2)" and a = replay_args and env = uniform_env
        and fs = Map.empty]
  show ?thesis by blast
qed

subsection \<open>The high-range toggle under replay\<close>

text \<open>
  Claim C10. When the replay (emulator) variant is selected, the run calls neither
  \<^verbatim>\<open>temperature_range_high\<close> nor \<^verbatim>\<open>wait_for_range_application\<close>, and the run is the same
  whatever the value of the high-range toggle. A run that issues either call has
  constructed the live camera, with the toggle set.
\<close>

theorem replay_ignores_high_range:
  "(use_emulator a \<longrightarrow>
      TemperatureRangeHigh \<notin> set (trace (snd (run env a fs)))
    \<and> WaitForRangeApplication \<notin> set (trace (snd (run env a fs)))
    \<and> run env (a\<lparr>high_range := b\<rparr>) fs = run env a fs)
   \<and> (TemperatureRangeHigh \<in> set (trace (snd (run env a fs)))
        \<or> WaitForRangeApplication \<in> set (trace (snd (run env a fs))) \<longrightarrow>
      \<not> use_emulator a \<and> high_range a
    \<and> Camera (make_camera_kwargs a) \<in> set (trace (snd (run env a fs))))"
proof -
  have "run env (a\<lparr>high_range := b\<rparr>) fs = run env a fs" if "use_emulator a"
    unfolding run_def using that by (rule main_high_range)
  then show ?thesis
    by (simp add: range_event_iff camera_event_iff)
qed

theorem replay_ignores_high_range_witness:
  "use_emulator replay_args
   \<and> TemperatureRangeHigh \<notin> set (trace (snd (run uniform_env replay_args Map.empty)))
   \<and> WaitForRangeApplication \<notin> set (trace (snd (run uniform_env replay_args Map.empty)))
   \<and> run uniform_env (replay_args\<lparr>high_range := True\<rparr>) Map.empty
       = run uniform_env replay_args Map.empty
   \<and> TemperatureRangeHigh \<in> set (trace (snd (run uniform_env live_args Map.empty)))
   \<and> \<not> use_emulator live_args
   \<and> Camera (make_camera_kwargs live_args) \<in> set (trace (snd (run uniform_env live_args Map.empty)))"
proof -
  have l: "TemperatureRangeHigh \<in> set (trace (snd (run uniform_env live_args Map.empty)))"
    unfolding range_event_iff using live_args_not_emulator by (simp add: live_args_def)
  from replay_args_emulator l
    replay_ignores_high_range [of replay_args uniform_env Map.empty True]
    replay_ignores_high_range [of live_args uniform_env Map.empty True]
  show ?thesis by blast
qed

subsection \<open>The compact report\<close>

text \<open>
  Claim C8 says that the two lines of \<^verbatim>\<open>thermal_T_minmax.txt\<close> are always formatted to
  two decimal places. The format \<^verbatim>\<open>:.2f\<close> prints a float that is not finite as a word:
  when the calibration answers NaN for the pixels of the frame, the minimum and the
  maximum are NaN and both lines of the file are \<^verbatim>\<open>nan\<close>, which has no decimal place.
\<close>

theorem minmax_file_nan_counterexample:
  "fst (final_read nan_env replay_args (start Map.empty))
   \<and> captured_frame nan_env replay_args (start Map.empty) = [[NaN, NaN]]
   \<and> fst (run nan_env replay_args Map.empty) = None
   \<and> files (snd (run nan_env replay_args Map.empty)) (simple_filename nan_env replay_args)
       = Some (Text ''nan\<newline>nan\<newline>'')
   \<and> \<not> decimal2 ''nan''"
proof -
  have c: "concat (captured_frame nan_env replay_args (start Map.empty)) \<noteq> []"
    unfolding nan_env_captured_frame by simp
  have m: "min_value nan_env (concat [[NaN, NaN]]) = NaN"
    "max_value nan_env (concat [[NaN, NaN]]) = NaN"
    by (simp_all add: min_value_def max_value_def)
  have r: "fst (run nan_env replay_args Map.empty) = None"
    unfolding run_def
    by (rule main_success(1) [OF nan_env_final_read statistics_nonempty [OF c]])
  have f: "files (snd (run nan_env replay_args Map.empty)) (simple_filename nan_env replay_args)
             = Some (Text ''nan\<newline>nan\<newline>'')"
    unfolding run_files_success [OF nan_env_final_read c] nan_env_captured_frame m
    by (simp add: simple_text_def fmt2f_def)
  have d: "\<not> decimal2 ''nan''"
    by (simp add: decimal2_def)
  from nan_env_final_read [of Map.empty] nan_env_captured_frame [of Map.empty] r f d
  show ?thesis by (intro conjI)
qed

text \<open>
  Claim C8, amended. After every successful capture (the final read succeeds and the
  matrix has an element) the file \<^verbatim>\<open>thermal_T_minmax.txt\<close> holds exactly two lines, each
  ended by a line break: the first prints the minimum of the matrix and the second its
  maximum (NaN when an element is NaN), with the format \<^verbatim>\<open>:.2f\<close>. A finite value is
  printed as a decimal with two places, with its sign and rounded to the nearest
  hundredth (an exact tie to the even one); NaN and the infinities are printed as
  \<^verbatim>\<open>nan\<close>, \<^verbatim>\<open>inf\<close> and \<^verbatim>\<open>-inf\<close>. When every element is 23.5 the file holds \<^verbatim>\<open>23.50\<close>, a
  line break, \<^verbatim>\<open>23.50\<close> and a line break.
\<close>

theorem minmax_file_two_lines:
  assumes "fst (final_read env a (start fs))"
    and "concat (captured_frame env a (start fs)) \<noteq> []"
  shows "files (snd (run env a fs)) (simple_filename env a) =
           Some (Text (fmt2f (min_value env (concat (captured_frame env a (start fs))))
                       @ ''\<newline>''
                       @ fmt2f (max_value env (concat (captured_frame env a (start fs))))
                       @ ''\<newline>''))
       \<and> least_of (concat (captured_frame env a (start fs)))
            (min_value env (concat (captured_frame env a (start fs))))
       \<and> greatest_of (concat (captured_frame env a (start fs)))
            (max_value env (concat (captured_frame env a (start fs))))
       \<and> prints_as (min_value env (concat (captured_frame env a (start fs))))
            (fmt2f (min_value env (concat (captured_frame env a (start fs)))))
       \<and> prints_as (max_value env (concat (captured_frame env a (start fs))))
            (fmt2f (max_value env (concat (captured_frame env a (start fs)))))
       \<and> CHR ''\<newline>'' \<notin> set (fmt2f (min_value env (concat (captured_frame env a (start fs)))))
       \<and> CHR ''\<newline>'' \<notin> set (fmt2f (max_value env (concat (captured_frame env a (start fs)))))
       \<and> (set (concat (captured_frame env a (start fs))) = {Fin 23.5} \<longrightarrow>
            files (snd (run env a fs)) (simple_filename env a)
              = Some (Text ''23.50\<newline>23.50\<newline>''))"
proof -
  let ?xs = "concat (captured_frame env a (start fs))"
  have f: "files (snd (run env a fs)) (simple_filename env a) =
           Some (Text (fmt2f (min_value env ?xs) @ ''\<newline>''
                       @ fmt2f (max_value env ?xs) @ ''\<newline>''))"
    unfolding run_files_success [OF assms] by (simp add: simple_text_def)
  have l: "least_of ?xs (min_value env ?xs)"
    using assms(2) by (rule least_of_min_value)
  have g: "greatest_of ?xs (max_value env ?xs)"
    using assms(2) by (rule greatest_of_max_value)
  have u: "files (snd (run env a fs)) (simple_filename env a)
              = Some (Text ''23.50\<newline>23.50\<newline>'')"
    if s: "set ?xs = {Fin 23.5}"
  proof -
    have m: "min_value env ?xs = Fin 23.5" "max_value env ?xs = Fin 23.5"
      using l g s by (auto simp: least_of_def greatest_of_def)
    show ?thesis
      unfolding f m fmt2f_23_5 by simp
  qed
  from f l g u fmt2f_prints_as fmt2f_no_newline show ?thesis
    by blast
qed

theorem minmax_file_two_lines_witness:
  "fst (final_read uniform_env replay_args (start Map.empty))
   \<and> concat (captured_frame uniform_env replay_args (start Map.empty)) \<noteq> []
   \<and> set (concat (captured_frame uniform_env replay_args (start Map.empty))) = {Fin 23.5}
   \<and> files (snd (run uniform_env replay_args Map.empty)) (simple_filename uniform_env replay_args)
       = Some (Text ''23.50\<newline>23.50\<newline>'')"
proof -
  have c: "concat (captured_frame uniform_env replay_args (start Map.empty)) \<noteq> []"
    unfolding uniform_env_captured_frame by (simp add: uniform_frame_def)
  have s: "set (concat (captured_frame uniform_env replay_args (start Map.empty))) = {Fin 23.5}"
    unfolding uniform_env_captured_frame by (simp add: uniform_frame_def)
  from minmax_file_two_lines [OF uniform_env_final_read c] uniform_env_final_read c s
  show ?thesis by blast
qed

subsection \<open>Files that already exist\<close>

text \<open>
  Claim C7 says that an existing file whose name collides with the run's base name keeps
  its contents. The script opens its files for writing with mode \<^verbatim>\<open>'w'\<close> and calls
  \<^verbatim>\<open>cv2.imwrite\<close> and \<^verbatim>\<open>np.save\<close> on the plain name: a file
  \<^verbatim>\<open>thermal_T_minmax.txt\<close> that held \<^verbatim>\<open>old\<close> holds the new report after the run.
\<close>

theorem existing_minmax_file_overwritten_counterexample:
  "simple_filename uniform_env replay_args = (''out'', ''thermal_2024-05-01_12-00-00_minmax.txt'')
   \<and> [simple_filename uniform_env replay_args \<mapsto> Text ''old'']
        (simple_filename uniform_env replay_args) = Some (Text ''old'')
   \<and> fst (run uniform_env replay_args [simple_filename uniform_env replay_args \<mapsto> Text ''old'']) = None
   \<and> files (snd (run uniform_env replay_args [simple_filename uniform_env replay_args \<mapsto> Text ''old'']))
        (simple_filename uniform_env replay_args) = Some (Text ''23.50\<newline>23.50\<newline>'')"
proof -
  let ?fs = "[simple_filename uniform_env replay_args \<mapsto> Text ''old'']"
  have n: "simple_filename uniform_env replay_args
             = (''out'', ''thermal_2024-05-01_12-00-00_minmax.txt'')"
    by (simp add: simple_filename_def uniform_env_def replay_args_def)
  have o: "?fs (simple_filename uniform_env replay_args) = Some (Text ''old'')"
    by simp
  have r: "fst (run uniform_env replay_args ?fs) = None"
    unfolding run_def
    by (rule main_success(1) [OF uniform_env_final_read uniform_env_statistics])
  have f: "files (snd (run uniform_env replay_args ?fs)) (simple_filename uniform_env replay_args)
             = Some (Text ''23.50\<newline>23.50\<newline>'')"
    unfolding run_def main_success(3) [OF uniform_env_final_read uniform_env_statistics]
      simple_text_def fmt2f_23_5
    by simp
  from n o r f show ?thesis by (intro conjI)
qed

text \<open>
  Claim C7, amended. After a successful capture each of the four files
  \<^verbatim>\<open>thermal_T.png\<close>, \<^verbatim>\<open>thermal_T.npy\<close>, \<^verbatim>\<open>thermal_T.txt\<close> and \<^verbatim>\<open>thermal_T_minmax.txt\<close> holds
  the artifact of this run, whatever a file of that name held before (an existing file
  is replaced); every file with another name is left as it was.
\<close>

theorem artifacts_replace_existing_files:
  assumes "fst (final_read env a (start fs))"
    and "concat (captured_frame env a (start fs)) \<noteq> []"
  shows "files (snd (run env a fs)) (image_filename env a) =
           Some (Png (temp_normalized (captured_frame env a (start fs))
                       (min_value env (concat (captured_frame env a (start fs))))
                       (max_value env (concat (captured_frame env a (start fs))))))
       \<and> files (snd (run env a fs)) (numpy_filename env a) =
           Some (Npy (captured_frame env a (start fs)))
       \<and> files (snd (run env a fs)) (metadata_filename env a) =
           Some (Text (metadata_text env
                       (min_value env (concat (captured_frame env a (start fs))))
                       (max_value env (concat (captured_frame env a (start fs))))
                       (np_mean env (captured_frame env a (start fs)))
                       (np_std (captured_frame env a (start fs)))))
       \<and> files (snd (run env a fs)) (simple_filename env a) =
           Some (Text (simple_text (min_value env (concat (captured_frame env a (start fs))))
                       (max_value env (concat (captured_frame env a (start fs))))))
       \<and> least_of (concat (captured_frame env a (start fs)))
            (min_value env (concat (captured_frame env a (start fs))))
       \<and> greatest_of (concat (captured_frame env a (start fs)))
            (max_value env (concat (captured_frame env a (start fs))))
       \<and> (\<forall>p. p \<notin> {image_filename env a, numpy_filename env a, metadata_filename env a,
                     simple_filename env a} \<longrightarrow>
              files (snd (run env a fs)) p = fs p)"
proof -
  have l: "least_of (concat (captured_frame env a (start fs)))
            (min_value env (concat (captured_frame env a (start fs))))"
    using assms(2) by (rule least_of_min_value)
  have g: "greatest_of (concat (captured_frame env a (start fs)))
            (max_value env (concat (captured_frame env a (start fs))))"
    using assms(2) by (rule greatest_of_max_value)
  show ?thesis
    unfolding run_files_success [OF assms]
    using filenames_distinct [of env a] l g by simp
qed

theorem artifacts_replace_existing_files_witness:
  "fst (final_read uniform_env replay_args (start [simple_filename uniform_env replay_args \<mapsto> Text ''old'']))
   \<and> concat (captured_frame uniform_env replay_args
        (start [simple_filename uniform_env replay_args \<mapsto> Text ''old''])) \<noteq> []
   \<and> files (snd (run uniform_env replay_args [simple_filename uniform_env replay_args \<mapsto> Text ''old'']))
        (numpy_filename uniform_env replay_args) = Some (Npy uniform_frame)"
proof -
  let ?fs = "[simple_filename uniform_env replay_args \<mapsto> Text ''old'']"
  have c: "concat (captured_frame uniform_env replay_args (start ?fs)) \<noteq> []"
    unfolding uniform_env_captured_frame by (simp add: uniform_frame_def)
  from artifacts_replace_existing_files [OF uniform_env_final_read c] uniform_env_final_read c
  show ?thesis
    unfolding uniform_env_captured_frame by blast
qed

end
